theory Spec2Isabelle
  imports Complex_Main
begin

section \<open>The SOF parser agent (backend/app/agents/sof\_parser.py)\<close>

text \<open>
  A shallow embedding of \<^verbatim>\<open>SOFParserAgent\<close>. Python floats are modelled as reals
  (overflow and NaN are left out), Python's unbounded integers as \<open>int\<close>, and text as
  \<open>string\<close>, so a character is one of the 256 code points of Latin-1. The total hours
  of the laytime calculation are rounded as the machine rounds them, since the
  classification compares them with the allowance; the numbers that are only reported
  (days, savings, rates, amounts) are computed exactly.
\<close>

subsection \<open>Floats\<close>

text \<open>The integer nearest to \<open>y\<close>, a tie going to the even one.\<close>

definition round_half_even :: "real \<Rightarrow> int" where
  "round_half_even y =
     (let f = \<lfloor>y\<rfloor>; r = y - of_int f
      in if r < 1 / 2 then f else if 1 / 2 < r then f + 1 else if even f then f else f + 1)"

text \<open>
  The binary64 float nearest to \<open>x\<close> (round to nearest, ties to even): with
  \<open>2\<^sup>e \<le> |x| < 2\<^sup>e\<^sup>+\<^sup>1\<close> the floats around \<open>x\<close> are the multiples of \<open>2\<^sup>e\<^sup>-\<^sup>5\<^sup>2\<close>. It
  is the result of a float division whose exact quotient is \<open>x\<close>. The exponent range
  is not modelled (no overflow, no subnormal numbers); the hours between two dates are far
  from both.
\<close>

definition float_round :: "real \<Rightarrow> real" where
  "float_round x =
     (if x = 0 then 0
      else (let e = \<lfloor>log 2 \<bar>x\<bar>\<rfloor>; ulp = 2 powr (of_int e - 52)
            in of_int (round_half_even (x / ulp)) * ulp))"

subsection \<open>datetime and timedelta (the standard library's arithmetic)\<close>

record datetime =
  year :: int
  month :: int
  day :: int
  hour :: int
  minute :: int
  second :: int
  microsecond :: int

record timedelta =
  days :: int
  seconds :: int
  microseconds :: int

definition is_leap :: "int \<Rightarrow> bool" where
  "is_leap y = (y mod 4 = 0 \<and> (if y mod 100 = 0 then y mod 400 = 0 else True))"

definition days_before_year :: "int \<Rightarrow> int" where
  "days_before_year y = (let y1 = y - 1 in y1 * 365 + y1 div 4 - y1 div 100 + y1 div 400)"

definition days_in_month :: "int \<Rightarrow> int \<Rightarrow> int" where
  "days_in_month y m =
     (if m = 2 then (if is_leap y then 29 else 28)
      else if m = 4 \<or> m = 6 \<or> m = 9 \<or> m = 11 then 30 else 31)"

fun days_before_month_upto :: "int \<Rightarrow> nat \<Rightarrow> int" where
  "days_before_month_upto y 0 = 0"
| "days_before_month_upto y (Suc k) = days_before_month_upto y k + days_in_month y (int (Suc k))"

definition days_before_month :: "int \<Rightarrow> int \<Rightarrow> int" where
  "days_before_month y m = days_before_month_upto y (nat (m - 1))"

definition ymd2ord :: "int \<Rightarrow> int \<Rightarrow> int \<Rightarrow> int" where
  "ymd2ord y m d = days_before_year y + days_before_month y m + d"

definition toordinal :: "datetime \<Rightarrow> int" where
  "toordinal t = ymd2ord (year t) (month t) (day t)"

text \<open>The \<^verbatim>\<open>timedelta\<close> constructor normalises microseconds into seconds and seconds into days.\<close>

definition mk_timedelta :: "int \<Rightarrow> int \<Rightarrow> int \<Rightarrow> timedelta" where
  "mk_timedelta d s us =
     (let s1 = s + us div 1000000; us1 = us mod 1000000;
          d1 = d + s1 div 86400; s2 = s1 mod 86400
      in \<lparr>days = d1, seconds = s2, microseconds = us1\<rparr>)"

text \<open>\<^verbatim>\<open>datetime.__sub__\<close> for two naive datetimes.\<close>

definition datetime_sub :: "datetime \<Rightarrow> datetime \<Rightarrow> timedelta" where
  "datetime_sub a b =
     (let secs1 = second a + minute a * 60 + hour a * 3600;
          secs2 = second b + minute b * 60 + hour b * 3600
      in mk_timedelta (toordinal a - toordinal b) (secs1 - secs2) (microsecond a - microsecond b))"

text \<open>
  \<^verbatim>\<open>timedelta.total_seconds\<close> divides two integers; the result is the float
  nearest to the quotient.
\<close>

definition total_seconds :: "timedelta \<Rightarrow> real" where
  "total_seconds td =
     float_round (real_of_int ((days td * 86400 + seconds td) * 1000000 + microseconds td) / 1000000)"

subsection \<open>Python values: errors, dictionaries, truthiness\<close>

datatype py_error = ZeroDivisionError

text \<open>
  A dictionary entry that may be missing and, when present, may hold \<^verbatim>\<open>None\<close>:
  \<open>None\<close> is a missing key, \<open>Some None\<close> the value \<^verbatim>\<open>None\<close>.
  \<^verbatim>\<open>d.get(key)\<close> gives \<^verbatim>\<open>None\<close> in both cases.
\<close>

definition dict_get :: "'a option option \<Rightarrow> 'a option" where
  "dict_get e = (case e of None \<Rightarrow> None | Some v \<Rightarrow> v)"

text \<open>Truthiness of an optional float: \<^verbatim>\<open>None\<close> and \<^verbatim>\<open>0.0\<close> are false.\<close>

definition truthy_float :: "real option \<Rightarrow> bool" where
  "truthy_float x = (case x of None \<Rightarrow> False | Some v \<Rightarrow> v \<noteq> 0)"

text \<open>Float division raises \<^verbatim>\<open>ZeroDivisionError\<close> on a zero divisor.\<close>

definition py_div :: "real \<Rightarrow> real \<Rightarrow> py_error + real" where
  "py_div a b = (if b = 0 then Inl ZeroDivisionError else Inr (a / b))"

subsection \<open>Characters\<close>

definition newline :: char where
  "newline = CHR 0x0A"

text \<open>
  \<^verbatim>\<open>str.isspace\<close> and the regular expression class \<^verbatim>\<open>\s\<close> on the code points
  below 256: TAB to CR, FS to US, the space, NEL and the no-break space.
\<close>

definition whitespace_chars :: string where
  "whitespace_chars = [CHR 0x09, CHR 0x0A, CHR 0x0B, CHR 0x0C, CHR 0x0D,
     CHR 0x1C, CHR 0x1D, CHR 0x1E, CHR 0x1F, CHR 0x20, CHR 0x85, CHR 0xA0]"

definition isspace :: "char \<Rightarrow> bool" where
  "isspace ch = (ch \<in> set whitespace_chars)"

definition digit_chars :: string where
  "digit_chars = ''0123456789''"

definition isdigit :: "char \<Rightarrow> bool" where
  "isdigit ch = (ch \<in> set digit_chars)"

definition upper_chars :: string where
  "upper_chars = ''ABCDEFGHIJKLMNOPQRSTUVWXYZ''"

definition lower_chars :: string where
  "lower_chars = ''abcdefghijklmnopqrstuvwxyz''"

text \<open>
  Case mapping on the ASCII letters. It is what \<^verbatim>\<open>re.IGNORECASE\<close> and
  \<^verbatim>\<open>str.lower\<close> do wherever this program uses them on Latin-1 text: every
  pattern of the program is ASCII, and no other Latin-1 character folds to an ASCII one.
\<close>

definition ascii_lower :: "char \<Rightarrow> char" where
  "ascii_lower ch = (case map_of (zip upper_chars lower_chars) ch of Some l \<Rightarrow> l | None \<Rightarrow> ch)"

definition ascii_upper :: "char \<Rightarrow> char" where
  "ascii_upper ch = (case map_of (zip lower_chars upper_chars) ch of Some u \<Rightarrow> u | None \<Rightarrow> ch)"

definition lower_str :: "string \<Rightarrow> string" where
  "lower_str s = map ascii_lower s"

definition strip :: "string \<Rightarrow> string" where
  "strip s = rev (dropWhile isspace (rev (dropWhile isspace s)))"

subsection \<open>Regular expressions (the part of \<^verbatim>\<open>re\<close> the program's patterns use)\<close>

datatype citem = CChar char | CRange char char | CSpace | CDigit

fun item_has :: "citem \<Rightarrow> char \<Rightarrow> bool" where
  "item_has (CChar x) ch = (ch = x)"
| "item_has (CRange a b) ch = ((of_char a :: nat) \<le> of_char ch \<and> (of_char ch :: nat) \<le> of_char b)"
| "item_has CSpace ch = isspace ch"
| "item_has CDigit ch = isdigit ch"

text \<open>Membership in a character class; the flag is \<^verbatim>\<open>re.IGNORECASE\<close>.\<close>

definition in_class :: "bool \<Rightarrow> citem list \<Rightarrow> char \<Rightarrow> bool" where
  "in_class ic its ch =
     (if ic then list_ex (\<lambda>it. item_has it (ascii_lower ch) \<or> item_has it (ascii_upper ch)) its
      else list_ex (\<lambda>it. item_has it ch) its)"

text \<open>
  \<open>Cls\<close> is one character of a class (a literal is the class of one character),
  \<open>Rep its lo hi greedy\<close> a class repeated \<open>lo\<close> to \<open>hi\<close> times (\<open>None\<close>: no bound),
  greedy or lazy, \<open>Grp n\<close> the capturing group number \<open>n\<close>, \<open>Eol\<close> the anchor
  \<^verbatim>\<open>$\<close>. An optional part \<^verbatim>\<open>r?\<close> is \<open>Alt r Eps\<close>.
\<close>

datatype regex =
    Cls "citem list"
  | Seq regex regex
  | Alt regex regex
  | Grp nat regex
  | Rep "citem list" nat "nat option" bool
  | Eol
  | Eps

type_synonym caps = "(nat \<times> string) list"

definition run_length :: "bool \<Rightarrow> citem list \<Rightarrow> nat option \<Rightarrow> string \<Rightarrow> nat" where
  "run_length ic its hi s =
     (let n = length (takeWhile (in_class ic its) s)
      in case hi of None \<Rightarrow> n | Some h \<Rightarrow> min n h)"

text \<open>
  All the ways the expression matches a prefix of \<open>s\<close>, in the order the backtracking
  matcher tries them: each is the text left after the match and the groups captured (the
  latest capture of a group first). The matcher's answer is the head of the list.
\<close>

fun rmatch :: "bool \<Rightarrow> regex \<Rightarrow> string \<Rightarrow> caps \<Rightarrow> (string \<times> caps) list" where
  "rmatch ic (Cls its) s c =
     (case s of [] \<Rightarrow> [] | ch # rest \<Rightarrow> if in_class ic its ch then [(rest, c)] else [])"
| "rmatch ic (Seq a b) s c = concat (map (\<lambda>(s1, c1). rmatch ic b s1 c1) (rmatch ic a s c))"
| "rmatch ic (Alt a b) s c = rmatch ic a s c @ rmatch ic b s c"
| "rmatch ic (Grp n a) s c =
     map (\<lambda>(s1, c1). (s1, (n, take (length s - length s1) s) # c1)) (rmatch ic a s c)"
| "rmatch ic (Rep its lo hi greedy) s c =
     (let ks = [lo ..< Suc (run_length ic its hi s)]
      in map (\<lambda>k. (drop k s, c)) (if greedy then rev ks else ks))"
| "rmatch ic Eol s c = (if s = [] \<or> s = [newline] then [(s, c)] else [])"
| "rmatch ic Eps s c = [(s, c)]"

fun ngroups :: "regex \<Rightarrow> nat" where
  "ngroups (Seq a b) = ngroups a + ngroups b"
| "ngroups (Alt a b) = ngroups a + ngroups b"
| "ngroups (Grp n a) = Suc (ngroups a)"
| "ngroups r = 0"

text \<open>\<^verbatim>\<open>m.group(n)\<close>: \<open>None\<close> when the group took no part in the match.\<close>

definition group :: "caps \<Rightarrow> nat \<Rightarrow> string option" where
  "group c n = map_of c n"

text \<open>
  \<^verbatim>\<open>re.search\<close>: the first position, from the left, where the expression matches.
  The result is the text from that position on, the text left after the match, and the
  groups.
\<close>

fun search :: "bool \<Rightarrow> regex \<Rightarrow> string \<Rightarrow> (string \<times> string \<times> caps) option" where
  "search ic r s =
     (case rmatch ic r s [] of
        (rest, c) # _ \<Rightarrow> Some (s, rest, c)
      | [] \<Rightarrow> (case s of [] \<Rightarrow> None | _ # t \<Rightarrow> search ic r t))"

text \<open>
  The scan of \<^verbatim>\<open>re.findall\<close>: matches do not overlap; after an empty match the next
  one may start at the same position only if it is not empty (\<open>must_advance\<close>).
\<close>

function scan :: "bool \<Rightarrow> regex \<Rightarrow> string \<Rightarrow> bool \<Rightarrow> (string \<times> caps) list" where
  "scan ic r s must_advance =
     (let ms = rmatch ic r s [];
          ms1 = (if must_advance then filter (\<lambda>(rest, c). length rest < length s) ms else ms)
      in case ms1 of
           (rest, c) # _ \<Rightarrow>
             (take (length s - length rest) s, c) #
               (if length rest < length s then scan ic r rest False else scan ic r s True)
         | [] \<Rightarrow> (case s of [] \<Rightarrow> [] | _ # t \<Rightarrow> scan ic r t False))"
  by pat_completeness auto
termination
  apply (relation "measures [\<lambda>(ic, r, s, m). length s, \<lambda>(ic, r, s, m). if m then 0 else 1]")
     apply simp_all
  apply (auto split: if_splits dest!: Cons_eq_filterD)
  done

datatype found = MStr string | MTuple "string list"

definition group_or_empty :: "caps \<Rightarrow> nat \<Rightarrow> string" where
  "group_or_empty c n = (case group c n of None \<Rightarrow> [] | Some g \<Rightarrow> g)"

text \<open>
  \<^verbatim>\<open>re.findall\<close>: the whole match for a pattern without groups, the group for a pattern
  with one, the tuple of the groups otherwise.
\<close>

definition findall :: "bool \<Rightarrow> regex \<Rightarrow> string \<Rightarrow> found list" where
  "findall ic r s =
     map (\<lambda>(whole, c).
            if ngroups r = 0 then MStr whole
            else if ngroups r = 1 then MStr (group_or_empty c 1)
            else MTuple (map (group_or_empty c) [1 ..< Suc (ngroups r)]))
         (scan ic r s False)"

subsection \<open>Building expressions\<close>

fun seqs :: "regex list \<Rightarrow> regex" where
  "seqs [] = Eps"
| "seqs [r] = r"
| "seqs (r # rs) = Seq r (seqs rs)"

definition lits :: "string \<Rightarrow> regex" where
  "lits s = seqs (map (\<lambda>ch. Cls [CChar ch]) s)"

definition one_or_more :: "citem list \<Rightarrow> regex" where
  "one_or_more its = Rep its 1 None True"

definition one_or_more_lazy :: "citem list \<Rightarrow> regex" where
  "one_or_more_lazy its = Rep its 1 None False"

definition zero_or_more :: "citem list \<Rightarrow> regex" where
  "zero_or_more its = Rep its 0 None True"

definition repeat_between :: "citem list \<Rightarrow> nat \<Rightarrow> nat \<Rightarrow> regex" where
  "repeat_between its lo hi = Rep its lo (Some hi) True"

definition optional :: "regex \<Rightarrow> regex" where
  "optional r = Alt r Eps"

fun alts :: "regex list \<Rightarrow> regex" where
  "alts [] = Eps"
| "alts [r] = r"
| "alts (r # rs) = Alt r (alts rs)"


subsection \<open>The pattern table \<^verbatim>\<open>self.sof_patterns\<close>\<close>

definition digit_class :: "citem list" where
  "digit_class = [CRange CHR ''0'' CHR ''9'']"  \<comment> \<open>\<^verbatim>\<open>[0-9]\<close>\<close>

definition space_class :: "citem list" where
  "space_class = [CSpace]"  \<comment> \<open>\<^verbatim>\<open>\s\<close>\<close>

definition colon_space :: "citem list" where
  "colon_space = [CChar CHR '':'', CSpace]"  \<comment> \<open>\<^verbatim>\<open>[:\s]\<close>\<close>

definition letters_space_dash :: "citem list" where
  "letters_space_dash = [CRange CHR ''A'' CHR ''Z'', CRange CHR ''a'' CHR ''z'', CSpace, CChar CHR ''-'']"
  \<comment> \<open>\<^verbatim>\<open>[A-Za-z\s\-]\<close>\<close>

definition alnum_space_dash :: "citem list" where
  "alnum_space_dash = [CRange CHR ''A'' CHR ''Z'', CRange CHR ''a'' CHR ''z'',
     CRange CHR ''0'' CHR ''9'', CSpace, CChar CHR ''-'']"
  \<comment> \<open>\<^verbatim>\<open>[A-Za-z0-9\s\-]\<close>\<close>

definition letters_space :: "citem list" where
  "letters_space = [CRange CHR ''A'' CHR ''Z'', CRange CHR ''a'' CHR ''z'', CSpace]"
  \<comment> \<open>\<^verbatim>\<open>[A-Za-z\s]\<close>\<close>

definition slash_dash :: "citem list" where
  "slash_dash = [CChar CHR ''/'', CChar CHR ''-'']"  \<comment> \<open>\<^verbatim>\<open>[/\-]\<close>\<close>

definition comma_space :: "citem list" where
  "comma_space = [CChar CHR '','', CSpace]"  \<comment> \<open>\<^verbatim>\<open>[,\s]\<close>\<close>

definition digit_comma :: "citem list" where
  "digit_comma = [CRange CHR ''0'' CHR ''9'', CChar CHR '','']"  \<comment> \<open>\<^verbatim>\<open>[0-9,]\<close>\<close>

definition line_end :: regex where
  "line_end = Alt (Cls [CChar newline]) Eol"  \<comment> \<open>\<^verbatim>\<open>(?:\n|$)\<close>\<close>

text \<open>\<^verbatim>\<open>([...]+?)(?:\n|$)\<close>: a lazy run of the class, up to the end of the line.\<close>

definition rest_of_line :: "citem list \<Rightarrow> regex" where
  "rest_of_line its = Seq (Grp 1 (one_or_more_lazy its)) line_end"

text \<open>\<^verbatim>\<open>([0-9]{1,2}[/\-][0-9]{1,2}[/\-][0-9]{2,4}[,\s]+[0-9]{1,2}:[0-9]{2})\<close>\<close>

definition timestamp_group :: regex where
  "timestamp_group = Grp 1 (seqs [repeat_between digit_class 1 2, Cls slash_dash, repeat_between digit_class 1 2,
     Cls slash_dash, repeat_between digit_class 2 4, one_or_more comma_space, repeat_between digit_class 1 2,
     lits '':'', repeat_between digit_class 2 2])"

text \<open>\<^verbatim>\<open>([0-9]+(?:\.[0-9]+)?)\s*(hours?|days?)\<close>\<close>

definition fraction_re :: regex where
  "fraction_re = optional (Seq (lits ''.'') (one_or_more digit_class))"

definition hours_days :: regex where
  "hours_days = Alt (Seq (lits ''hour'') (optional (lits ''s''))) (Seq (lits ''day'') (optional (lits ''s'')))"

definition laytime_groups :: regex where
  "laytime_groups = seqs [Grp 1 (Seq (one_or_more digit_class) fraction_re), zero_or_more space_class, Grp 2 hours_days]"

text \<open>\<^verbatim>\<open>([0-9,]+(?:\.[0-9]+)?)\s*(mt|tons?|metric\s+tons?)\<close>\<close>

definition cargo_groups :: regex where
  "cargo_groups = seqs [Grp 1 (Seq (one_or_more digit_comma) fraction_re), zero_or_more space_class,
     Grp 2 (alts [lits ''mt'', Seq (lits ''ton'') (optional (lits ''s'')),
                   seqs [lits ''metric'', one_or_more space_class, lits ''ton'', optional (lits ''s'')]])]"

definition sof_patterns :: "(string \<times> regex list) list" where
  "sof_patterns = [
     (''vessel_name'', [
        seqs [lits ''vessel'', one_or_more colon_space, rest_of_line letters_space_dash],
        seqs [lits ''m/v'', one_or_more space_class, rest_of_line letters_space_dash],
        seqs [lits ''m.v.'', one_or_more space_class, rest_of_line letters_space_dash],
        seqs [lits ''ship'', one_or_more colon_space, rest_of_line letters_space_dash]]),
     (''voyage_number'', [
        seqs [lits ''voyage'', one_or_more colon_space, rest_of_line alnum_space_dash],
        seqs [lits ''voy'', one_or_more space_class, rest_of_line alnum_space_dash],
        seqs [lits ''voyage'', one_or_more space_class, lits ''no'', one_or_more colon_space, rest_of_line alnum_space_dash]]),
     (''arrival_time'', [
        seqs [lits ''arrival'', one_or_more colon_space, timestamp_group],
        seqs [lits ''arrived'', one_or_more colon_space, timestamp_group],
        seqs [lits ''eta'', one_or_more colon_space, timestamp_group]]),
     (''departure_time'', [
        seqs [lits ''departure'', one_or_more colon_space, timestamp_group],
        seqs [lits ''departed'', one_or_more colon_space, timestamp_group],
        seqs [lits ''etd'', one_or_more colon_space, timestamp_group]]),
     (''nor_time'', [
        seqs [lits ''nor'', one_or_more colon_space, timestamp_group],
        seqs [lits ''notice'', one_or_more space_class, lits ''of'', one_or_more space_class, lits ''readiness'',
              one_or_more colon_space, timestamp_group],
        seqs [lits ''readiness'', one_or_more colon_space, timestamp_group]]),
     (''laytime_allowed'', [
        seqs [lits ''laytime'', one_or_more colon_space, laytime_groups],
        seqs [lits ''lay'', one_or_more space_class, lits ''time'', one_or_more colon_space, laytime_groups],
        seqs [lits ''allowed'', one_or_more space_class, lits ''time'', one_or_more colon_space, laytime_groups]]),
     (''cargo_quantity'', [
        seqs [lits ''cargo'', one_or_more colon_space, cargo_groups],
        seqs [lits ''quantity'', one_or_more colon_space, cargo_groups],
        seqs [lits ''loaded'', one_or_more colon_space, cargo_groups],
        seqs [lits ''discharged'', one_or_more colon_space, cargo_groups]]),
     (''berth_info'', [
        seqs [lits ''berth'', one_or_more colon_space, rest_of_line alnum_space_dash],
        seqs [lits ''terminal'', one_or_more colon_space, rest_of_line alnum_space_dash],
        seqs [lits ''quay'', one_or_more colon_space, rest_of_line alnum_space_dash]]),
     (''port_name'', [
        seqs [lits ''port'', one_or_more colon_space, rest_of_line letters_space],
        seqs [lits ''at'', one_or_more space_class, rest_of_line letters_space],
        seqs [lits ''in'', one_or_more space_class, rest_of_line letters_space]])]"

subsection \<open>\_extract\_sof\_data\<close>

text \<open>What one element of \<^verbatim>\<open>matches\<close> adds to the field's list.\<close>

fun match_candidates :: "found \<Rightarrow> string list" where
  "match_candidates (MTuple ms) = filter (\<lambda>m. strip m \<noteq> []) ms"
| "match_candidates (MStr m) = (if strip m \<noteq> [] then [strip m] else [])"

definition field_candidates :: "regex list \<Rightarrow> string \<Rightarrow> string list" where
  "field_candidates patterns text_content =
     concat (map (\<lambda>pattern. concat (map match_candidates (findall True pattern text_content))) patterns)"

text \<open>The loop that removes duplicates: \<open>seen\<close> is the set, \<open>unique_matches\<close> the list.\<close>

fun unique_loop :: "string list \<Rightarrow> string set \<Rightarrow> string list \<Rightarrow> string list" where
  "unique_loop [] seen unique_matches = unique_matches"
| "unique_loop (m # ms) seen unique_matches =
     (if m \<notin> seen then unique_loop ms (insert m seen) (unique_matches @ [m])
      else unique_loop ms seen unique_matches)"

definition extract_field :: "regex list \<Rightarrow> string \<Rightarrow> string list" where
  "extract_field patterns text_content = unique_loop (field_candidates patterns text_content) {} []"

definition extract_sof_data :: "string \<Rightarrow> (string \<times> string list) list" where
  "extract_sof_data text_content =
     map (\<lambda>(field_name, patterns). (field_name, extract_field patterns text_content)) sof_patterns"

subsection \<open>The dictionaries of the pipeline\<close>

type_synonym extracted_data = "(string \<times> string list) list"

record parsed_data =
  extracted :: extracted_data
  arrival_datetime :: "datetime option option"
  departure_datetime :: "datetime option option"
  nor_datetime :: "datetime option option"
  laytime_hours :: "real option option"
  cargo_mt :: "real option option"

record laytime_calc =
  total_time_hours :: "real option"
  total_time_days :: "real option"
  laytime_allowed_hours :: "real option"
  laytime_allowed_days :: "real option"
  laytime_status :: "string option"
  time_saved_hours :: "real option"
  time_saved_days :: "real option"
  time_exceeded_hours :: "real option"
  time_exceeded_days :: "real option"
  cargo_rate_mt_per_hour :: "real option"
  cargo_rate_mt_per_day :: "real option"

definition empty_calc :: laytime_calc where
  "empty_calc = \<lparr>total_time_hours = None, total_time_days = None,
     laytime_allowed_hours = None, laytime_allowed_days = None, laytime_status = None,
     time_saved_hours = None, time_saved_days = None,
     time_exceeded_hours = None, time_exceeded_days = None,
     cargo_rate_mt_per_hour = None, cargo_rate_mt_per_day = None\<rparr>"

subsection \<open>\_calculate\_laytime\<close>

text \<open>
  The branch \<^verbatim>\<open>if laytime_allowed:\<close> of the source, run on the calculations that
  already hold the total time. The comparison is that of two floats: the total as the
  division rounded it, and the allowance as it was given.
\<close>

definition laytime_efficiency :: "real \<Rightarrow> real option \<Rightarrow> laytime_calc \<Rightarrow> laytime_calc" where
  "laytime_efficiency total_hours laytime_allowed c =
     (if truthy_float laytime_allowed then
        (let a = the laytime_allowed;
             c1 = c\<lparr>laytime_allowed_hours := Some a, laytime_allowed_days := Some (a / 24)\<rparr>
         in if total_hours \<le> a
            then c1\<lparr>laytime_status := Some ''within_limit'',
                    time_saved_hours := Some (a - total_hours),
                    time_saved_days := Some ((a - total_hours) / 24)\<rparr>
            else c1\<lparr>laytime_status := Some ''exceeded'',
                    time_exceeded_hours := Some (total_hours - a),
                    time_exceeded_days := Some ((total_hours - a) / 24)\<rparr>)
      else c)"

text \<open>
  The first block of the source: a datetime object is always truthy, so
  \<^verbatim>\<open>if nor_time and departure_time\<close> asks only whether both are not \<^verbatim>\<open>None\<close>.
  The total is the float that \<^verbatim>\<open>total_time.total_seconds() / 3600\<close> gives.
\<close>

definition total_time_block :: "datetime option \<Rightarrow> datetime option \<Rightarrow> real option \<Rightarrow> laytime_calc" where
  "total_time_block nor_time departure_time laytime_allowed =
     (case nor_time of
        None \<Rightarrow> empty_calc
      | Some n \<Rightarrow>
          (case departure_time of
             None \<Rightarrow> empty_calc
           | Some d \<Rightarrow>
               (let total_time = datetime_sub d n;
                    total_hours = float_round (total_seconds total_time / 3600)
                in laytime_efficiency total_hours laytime_allowed
                     (empty_calc\<lparr>total_time_hours := Some total_hours,
                                 total_time_days := Some (total_hours / 24)\<rparr>))))"

text \<open>
  The cargo block divides without looking at the divisor; the exception of a zero
  divisor is caught by the function's \<^verbatim>\<open>except Exception\<close>, which returns the
  error dictionary in place of the calculations (\<open>Inl\<close>).
\<close>

definition cargo_block :: "real option \<Rightarrow> laytime_calc \<Rightarrow> py_error + laytime_calc" where
  "cargo_block cargo c =
     (if truthy_float cargo \<and> total_time_hours c \<noteq> None then
        (case py_div (the cargo) (the (total_time_hours c)) of
           Inl e \<Rightarrow> Inl e
         | Inr per_hour \<Rightarrow>
             (case py_div (the cargo) (the (total_time_days c)) of
                Inl e \<Rightarrow> Inl e
              | Inr per_day \<Rightarrow>
                  Inr (c\<lparr>cargo_rate_mt_per_hour := Some per_hour,
                         cargo_rate_mt_per_day := Some per_day\<rparr>)))
      else Inr c)"

definition calculate_laytime :: "parsed_data \<Rightarrow> py_error + laytime_calc" where
  "calculate_laytime pd =
     (let nor_time = dict_get (nor_datetime pd);
          departure_time = dict_get (departure_datetime pd);
          laytime_allowed = dict_get (laytime_hours pd);
          calculations = total_time_block nor_time departure_time laytime_allowed;
          cargo = dict_get (cargo_mt pd)
      in cargo_block cargo calculations)"

subsection \<open>\_analyze\_financial\_implications\<close>

record example_rates =
  demurrage_rate_usd_per_day :: real
  despatch_rate_usd_per_day :: real

record financial_analysis =
  despatch_amount_usd :: "real option"
  despatch_rate_used :: "real option"
  fin_time_saved_days :: "real option"
  financial_impact :: "string option"
  demurrage_amount_usd :: "real option"
  demurrage_rate_used :: "real option"
  fin_time_exceeded_days :: "real option"
  rates :: example_rates
  fin_note :: string

text \<open>
  The fields \<open>despatch_rate_used\<close>, \<open>demurrage_rate_used\<close>, \<open>fin_time_saved_days\<close>,
  \<open>fin_time_exceeded_days\<close> and \<open>rates\<close> are the keys
  \<^verbatim>\<open>despatch_rate_usd_per_day\<close>, \<^verbatim>\<open>demurrage_rate_usd_per_day\<close>,
  \<^verbatim>\<open>time_saved_days\<close>, \<^verbatim>\<open>time_exceeded_days\<close> and \<^verbatim>\<open>example_rates\<close> (and \<open>fin_note\<close> the key \<^verbatim>\<open>note\<close>)
  of the source's dictionary (renamed where a record field of that name exists already).
\<close>

definition the_example_rates :: example_rates where
  "the_example_rates = \<lparr>demurrage_rate_usd_per_day = 25000, despatch_rate_usd_per_day = 12500\<rparr>"

definition the_note :: string where
  "the_note = ''Rates are examples. Actual rates should be verified from charter party.''"

definition empty_financial :: financial_analysis where
  "empty_financial = \<lparr>despatch_amount_usd = None, despatch_rate_used = None,
     fin_time_saved_days = None, financial_impact = None, demurrage_amount_usd = None,
     demurrage_rate_used = None, fin_time_exceeded_days = None,
     rates = the_example_rates, fin_note = the_note\<rparr>"

text \<open>\<^verbatim>\<open>laytime_calculations.get(key, 0)\<close>.\<close>

definition get_default0 :: "real option \<Rightarrow> real" where
  "get_default0 x = (case x of None \<Rightarrow> 0 | Some v \<Rightarrow> v)"

definition analyze_financial_implications ::
    "parsed_data \<Rightarrow> py_error + laytime_calc \<Rightarrow> financial_analysis" where
  "analyze_financial_implications pd lc =
     (case lc of
        Inl e \<Rightarrow> empty_financial
      | Inr c \<Rightarrow>
          (case laytime_status c of
             None \<Rightarrow> empty_financial
           | Some status \<Rightarrow>
               if status = ''within_limit'' then
                 (let saved_days = get_default0 (time_saved_days c);
                      despatch_amount = saved_days * despatch_rate_usd_per_day the_example_rates
                  in empty_financial\<lparr>despatch_amount_usd := Some despatch_amount,
                       despatch_rate_used := Some (despatch_rate_usd_per_day the_example_rates),
                       fin_time_saved_days := Some saved_days,
                       financial_impact := Some ''positive''\<rparr>)
               else if status = ''exceeded'' then
                 (let exceeded_days = get_default0 (time_exceeded_days c);
                      demurrage_amount = exceeded_days * demurrage_rate_usd_per_day the_example_rates
                  in empty_financial\<lparr>demurrage_amount_usd := Some demurrage_amount,
                       demurrage_rate_used := Some (demurrage_rate_usd_per_day the_example_rates),
                       fin_time_exceeded_days := Some exceeded_days,
                       financial_impact := Some ''negative''\<rparr>)
               else empty_financial))"

subsection \<open>Strings and numbers of the standard library\<close>

fun starts_with :: "string \<Rightarrow> string \<Rightarrow> bool" where
  "starts_with s [] = True"
| "starts_with [] (p # ps) = False"
| "starts_with (x # xs) (p # ps) = (x = p \<and> starts_with xs ps)"

definition ends_with :: "string \<Rightarrow> string \<Rightarrow> bool" where
  "ends_with s suffix = starts_with (rev s) (rev suffix)"

text \<open>\<^verbatim>\<open>sub in s\<close> on strings.\<close>

fun contains :: "string \<Rightarrow> string \<Rightarrow> bool" where
  "contains [] sub = (sub = [])"
| "contains (x # xs) sub = (if starts_with (x # xs) sub then True else contains xs sub)"

definition digit_value :: "char \<Rightarrow> nat" where
  "digit_value ch =
     (case map_of (zip digit_chars [0, 1, 2, 3, 4, 5, 6, 7, 8, 9]) ch of Some v \<Rightarrow> v | None \<Rightarrow> 0)"

definition nat_of_digits :: "string \<Rightarrow> nat" where
  "nat_of_digits s = foldl (\<lambda>a ch. 10 * a + digit_value ch) 0 s"

text \<open>
  \<^verbatim>\<open>float(s)\<close> on the strings this program passes to it: digits with at most one dot
  and at least one digit. Everything else is \<^verbatim>\<open>ValueError\<close> (\<open>None\<close>); the signs,
  exponents and blanks that \<^verbatim>\<open>float\<close> accepts as well cannot reach it here, since its
  argument is always a group of \<^verbatim>\<open>[0-9]\<close>, \<^verbatim>\<open>,\<close> and \<^verbatim>\<open>.\<close> with the commas removed.
\<close>

definition py_float :: "string \<Rightarrow> real option" where
  "py_float s =
     (let int_part = takeWhile isdigit s; rest = dropWhile isdigit s
      in case rest of
           [] \<Rightarrow> if int_part = [] then None else Some (real (nat_of_digits int_part))
         | ch # frac_part \<Rightarrow>
             if ch = CHR ''.'' \<and> list_all isdigit frac_part \<and> (int_part \<noteq> [] \<or> frac_part \<noteq> [])
             then Some (real (nat_of_digits int_part)
                        + real (nat_of_digits frac_part) / 10 ^ length frac_part)
             else None)"

text \<open>\<^verbatim>\<open>int(s)\<close> on a run of digits, blanks around it stripped.\<close>

definition py_int :: "string \<Rightarrow> int" where
  "py_int s = int (nat_of_digits (strip s))"

text \<open>\<^verbatim>\<open>round(x, 2)\<close>: to the nearest hundredth, a tie to the even one.\<close>

definition py_round2 :: "real \<Rightarrow> real" where
  "py_round2 x = of_int (round_half_even (x * 100)) / 100"

subsection \<open>\_parse\_laytime and \_parse\_cargo\_quantity\<close>

definition parse_laytime :: "string \<Rightarrow> real option" where
  "parse_laytime laytime_str =
     (case search True laytime_groups laytime_str of
        None \<Rightarrow> None
      | Some (start, rest, c) \<Rightarrow>
          (case group c 1 of
             None \<Rightarrow> None
           | Some g1 \<Rightarrow>
               (case py_float g1 of
                  None \<Rightarrow> None
                | Some v \<Rightarrow>
                    (case group c 2 of
                       None \<Rightarrow> None
                     | Some g2 \<Rightarrow>
                         (let unit = lower_str g2
                          in if contains unit ''day'' then Some (v * 24) else Some v)))))"

text \<open>\<^verbatim>\<open>([0-9,]+(?:\.[0-9]+)?)\<close>, searched without \<^verbatim>\<open>re.IGNORECASE\<close>.\<close>

definition cargo_number :: regex where
  "cargo_number = Grp 1 (Seq (one_or_more digit_comma) fraction_re)"

definition parse_cargo_quantity :: "string \<Rightarrow> real option" where
  "parse_cargo_quantity cargo_str =
     (case search False cargo_number cargo_str of
        None \<Rightarrow> None
      | Some (start, rest, c) \<Rightarrow>
          (case group c 1 of
             None \<Rightarrow> None
           | Some g1 \<Rightarrow> (let value_str = filter (\<lambda>ch. ch \<noteq> CHR '','') g1 in py_float value_str)))"

subsection \<open>datetime.strptime and \_parse\_datetime\<close>

definition any_digit :: regex where
  "any_digit = Cls [CDigit]"  \<comment> \<open>\<^verbatim>\<open>\d\<close>\<close>

definition range_re :: "char \<Rightarrow> char \<Rightarrow> regex" where
  "range_re a b = Cls [CRange a b]"

text \<open>
  The expressions of the directives, as \<^verbatim>\<open>_strptime.TimeRE\<close> has them; the group
  numbers 1 to 6 stand for the names \<^verbatim>\<open>d\<close>, \<^verbatim>\<open>m\<close>, \<^verbatim>\<open>Y\<close>, \<^verbatim>\<open>y\<close>, \<^verbatim>\<open>H\<close>, \<^verbatim>\<open>M\<close>.
\<close>

definition directive :: "char \<Rightarrow> regex option" where
  "directive ch =
     (if ch = CHR ''d'' then
        Some (Grp 1 (alts [Seq (lits ''3'') (range_re CHR ''0'' CHR ''1''),
                           Seq (range_re CHR ''1'' CHR ''2'') any_digit,
                           Seq (lits ''0'') (range_re CHR ''1'' CHR ''9''),
                           range_re CHR ''1'' CHR ''9'',
                           Seq (lits '' '') (range_re CHR ''1'' CHR ''9'')]))
      else if ch = CHR ''m'' then
        Some (Grp 2 (alts [Seq (lits ''1'') (range_re CHR ''0'' CHR ''2''),
                           Seq (lits ''0'') (range_re CHR ''1'' CHR ''9''),
                           range_re CHR ''1'' CHR ''9'']))
      else if ch = CHR ''Y'' then Some (Grp 3 (seqs [any_digit, any_digit, any_digit, any_digit]))
      else if ch = CHR ''y'' then Some (Grp 4 (Seq any_digit any_digit))
      else if ch = CHR ''H'' then
        Some (Grp 5 (alts [Seq (lits ''2'') (range_re CHR ''0'' CHR ''3''),
                           Seq (range_re CHR ''0'' CHR ''1'') any_digit,
                           any_digit]))
      else if ch = CHR ''M'' then
        Some (Grp 6 (alts [Seq (range_re CHR ''0'' CHR ''5'') any_digit, any_digit]))
      else None)"

text \<open>
  The expression of a format: a directive gives its group, a run of blanks
  \<^verbatim>\<open>\s+\<close>, any other character itself. \<open>None\<close> is a directive this model does not
  know (the formats of the program use the six above only).
\<close>

fun format_regex :: "string \<Rightarrow> regex option" where
  "format_regex [] = Some Eps"
| "format_regex [ch] =
     (if ch = CHR ''%'' then None
      else if isspace ch then Some (one_or_more space_class)
      else Some (Cls [CChar ch]))"
| "format_regex (ch # d # cs) =
     (if ch = CHR ''%'' then
        (case directive d of
           None \<Rightarrow> None
         | Some r \<Rightarrow> (case format_regex cs of None \<Rightarrow> None | Some rs \<Rightarrow> Some (Seq r rs)))
      else
        (case format_regex (d # cs) of
           None \<Rightarrow> None
         | Some rs \<Rightarrow>
             if isspace ch then (if isspace d then Some rs else Some (Seq (one_or_more space_class) rs))
             else Some (Seq (Cls [CChar ch]) rs)))"

definition group_int :: "caps \<Rightarrow> nat \<Rightarrow> int \<Rightarrow> int" where
  "group_int c n dflt = (case group c n of None \<Rightarrow> dflt | Some g \<Rightarrow> py_int g)"

text \<open>
  \<^verbatim>\<open>datetime.strptime(data_string, format)\<close>; \<open>None\<close> is \<^verbatim>\<open>ValueError\<close>: the
  expression does not match at the start, text is left after the match, or the date does
  not exist. A two-digit year up to 68 is in the 2000s, from 69 on in the 1900s.
\<close>

definition strptime :: "string \<Rightarrow> string \<Rightarrow> datetime option" where
  "strptime data_string fmt =
     (case format_regex fmt of
        None \<Rightarrow> None
      | Some r \<Rightarrow>
          (case rmatch True r data_string [] of
             [] \<Rightarrow> None
           | (rest, c) # _ \<Rightarrow>
               if rest \<noteq> [] then None
               else
                 (let y = (case group c 3 of
                             Some g \<Rightarrow> py_int g
                           | None \<Rightarrow>
                               (case group c 4 of
                                  Some g \<Rightarrow> (if py_int g \<le> 68 then py_int g + 2000 else py_int g + 1900)
                                | None \<Rightarrow> 1900));
                      m = group_int c 2 1;
                      d = group_int c 1 1;
                      h = group_int c 5 0;
                      mi = group_int c 6 0
                  in if 1 \<le> y \<and> y \<le> 9999 \<and> 1 \<le> m \<and> m \<le> 12 \<and> 1 \<le> d \<and> d \<le> days_in_month y m
                     then Some \<lparr>year = y, month = m, day = d, hour = h, minute = mi,
                                second = 0, microsecond = 0\<rparr>
                     else None)))"

definition formats :: "string list" where
  "formats = [''%d/%m/%Y, %H:%M'', ''%d-%m-%Y, %H:%M'', ''%Y-%m-%d, %H:%M'',
              ''%d/%m/%y, %H:%M'', ''%d-%m-%y, %H:%M'']"

definition date_formats :: "string list" where
  "date_formats = [''%d/%m/%Y'', ''%d-%m-%Y'', ''%Y-%m-%d'', ''%d/%m/%y'', ''%d-%m-%y'']"

text \<open>The loop \<^verbatim>\<open>for fmt in ...: try: return strptime(...) except ValueError: continue\<close>.\<close>

fun try_formats :: "string list \<Rightarrow> string \<Rightarrow> datetime option" where
  "try_formats [] datetime_str = None"
| "try_formats (fmt # fmts) datetime_str =
     (case strptime datetime_str fmt of
        Some t \<Rightarrow> Some t
      | None \<Rightarrow> try_formats fmts datetime_str)"

definition parse_datetime :: "string \<Rightarrow> datetime option" where
  "parse_datetime datetime_str =
     (case try_formats formats datetime_str of
        Some t \<Rightarrow> Some t
      | None \<Rightarrow> try_formats date_formats datetime_str)"

subsection \<open>\_parse\_dates\_and\_times\<close>

text \<open>
  \<^verbatim>\<open>if extracted_data.get(key): ... extracted_data[key][0]\<close>: the first candidate of
  a field whose list is there and not empty.
\<close>

definition first_candidate :: "extracted_data \<Rightarrow> string \<Rightarrow> string option" where
  "first_candidate extracted_data key =
     (case map_of extracted_data key of
        None \<Rightarrow> None
      | Some [] \<Rightarrow> None
      | Some (c # cs) \<Rightarrow> Some c)"

definition parse_dates_and_times :: "extracted_data \<Rightarrow> parsed_data" where
  "parse_dates_and_times extracted_data =
     \<lparr>extracted = extracted_data,
      arrival_datetime = map_option parse_datetime (first_candidate extracted_data ''arrival_time''),
      departure_datetime = map_option parse_datetime (first_candidate extracted_data ''departure_time''),
      nor_datetime = map_option parse_datetime (first_candidate extracted_data ''nor_time''),
      laytime_hours = map_option parse_laytime (first_candidate extracted_data ''laytime_allowed''),
      cargo_mt = map_option parse_cargo_quantity (first_candidate extracted_data ''cargo_quantity'')\<rparr>"

subsection \<open>\_calculate\_confidence\_score\<close>

definition critical_fields :: "string list" where
  "critical_fields = [''vessel_name'', ''arrival_time'', ''departure_time'']"

definition calculate_confidence_score :: "extracted_data \<Rightarrow> real" where
  "calculate_confidence_score extracted_data =
     (let fields_with_data = length (filter (\<lambda>field_data. field_data \<noteq> []) (map snd extracted_data));
          total_fields = length extracted_data;
          base_confidence = (if total_fields > 0 then real fields_with_data / real total_fields else 0);
          critical_boost = 0.2;
          critical_fields_present =
            length (filter (\<lambda>field. first_candidate extracted_data field \<noteq> None) critical_fields);
          critical_confidence =
            real critical_fields_present / real (length critical_fields) * critical_boost;
          final_confidence = min (base_confidence + critical_confidence) 1.0
      in py_round2 final_confidence)"

subsection \<open>parse\_sof\_document\<close>

text \<open>
  What the call reads from outside the program: the UTF-8 decoder of the standard
  library (\<^verbatim>\<open>errors='ignore'\<close>), PyMuPDF when it could be imported (\<open>None\<close> when
  not; the function gives the text of the pages joined by newlines, or \<open>None\<close> when it
  raises), and the clock that \<^verbatim>\<open>datetime.now()\<close> reads.
\<close>

record environment =
  decode_utf8 :: "string \<Rightarrow> string"
  fitz :: "(string \<Rightarrow> string option) option"
  now :: datetime

datatype content = Bytes string | Text string

record parse_result =
  filename :: string
  extracted_data :: extracted_data
  parsed_data :: parsed_data
  laytime_calculations :: "py_error + laytime_calc"
  financial_analysis :: financial_analysis
  analysis_timestamp :: string
  confidence_score :: real

definition digit_char :: "nat \<Rightarrow> char" where
  "digit_char n = digit_chars ! (n mod 10)"

fun zero_padded :: "nat \<Rightarrow> nat \<Rightarrow> string" where
  "zero_padded 0 n = []"
| "zero_padded (Suc w) n = zero_padded w (n div 10) @ [digit_char n]"

text \<open>\<^verbatim>\<open>datetime.isoformat()\<close>: the microseconds are printed only when not zero.\<close>

definition isoformat :: "datetime \<Rightarrow> string" where
  "isoformat t =
     zero_padded 4 (nat (year t)) @ ''-'' @ zero_padded 2 (nat (month t)) @ ''-''
       @ zero_padded 2 (nat (day t)) @ ''T'' @ zero_padded 2 (nat (hour t)) @ '':''
       @ zero_padded 2 (nat (minute t)) @ '':'' @ zero_padded 2 (nat (second t))
       @ (if microsecond t = 0 then [] else ''.'' @ zero_padded 6 (nat (microsecond t)))"

definition content_bytes :: "content \<Rightarrow> string" where
  "content_bytes c = (case c of Bytes b \<Rightarrow> b | Text t \<Rightarrow> t)"

text \<open>
  The first block of the function: the content as text, read again by PyMuPDF when the
  file name ends in \<^verbatim>\<open>.pdf\<close> and the decoded text is empty or, stripped, shorter than
  20 characters.
\<close>

definition document_text :: "environment \<Rightarrow> content \<Rightarrow> string \<Rightarrow> string" where
  "document_text env c fname =
     (let text_content = (case c of Bytes b \<Rightarrow> decode_utf8 env b | Text t \<Rightarrow> t)
      in if fitz env \<noteq> None \<and> ends_with (lower_str fname) ''.pdf''
            \<and> (text_content = [] \<or> length (strip text_content) < 20)
         then (case the (fitz env) (content_bytes c) of
                 Some pages_text \<Rightarrow> pages_text
               | None \<Rightarrow> text_content)
         else text_content)"

text \<open>
  None of the steps raises, so the \<^verbatim>\<open>except\<close> of the function is never reached and
  the result is always the dictionary of the seven keys.
\<close>

definition parse_sof_document :: "environment \<Rightarrow> content \<Rightarrow> string \<Rightarrow> parse_result" where
  "parse_sof_document env c fname =
     (let text_content = document_text env c fname;
          extracted = extract_sof_data text_content;
          parsed = parse_dates_and_times extracted;
          laytime = calculate_laytime parsed;
          financial = analyze_financial_implications parsed laytime
      in \<lparr>filename = fname,
          extracted_data = extracted,
          parsed_data = parsed,
          laytime_calculations = laytime,
          financial_analysis = financial,
          analysis_timestamp = isoformat (now env),
          confidence_score = calculate_confidence_score extracted\<rparr>)"

subsection \<open>Notions the properties are stated with\<close>

text \<open>
  The time from \<open>nor_t\<close> to \<open>dep_t\<close> on the calendar, in seconds and in hours
  (possibly fractional, negative when \<open>dep_t\<close> is the earlier one), as exact numbers.
\<close>

definition exact_seconds :: "datetime \<Rightarrow> datetime \<Rightarrow> real" where
  "exact_seconds nor_t dep_t =
     (real_of_int ((toordinal dep_t - toordinal nor_t) * 86400 + (hour dep_t - hour nor_t) * 3600
        + (minute dep_t - minute nor_t) * 60 + (second dep_t - second nor_t))
      + real_of_int (microsecond dep_t - microsecond nor_t) / 1000000)"

definition exact_hours :: "datetime \<Rightarrow> datetime \<Rightarrow> real" where
  "exact_hours nor_t dep_t = exact_seconds nor_t dep_t / 3600"

text \<open>
  The elapsed hours as a float: the seconds as a float, divided by 3600 as floats are
  divided. This is the total the calculation reports. It has the sign of the exact hours
  and differs from them by less than one part in \<open>2\<^sup>5\<^sup>1\<close>.
\<close>

definition elapsed_hours :: "datetime \<Rightarrow> datetime \<Rightarrow> real" where
  "elapsed_hours nor_t dep_t = float_round (float_round (exact_seconds nor_t dep_t) / 3600)"

text \<open>
  The position of the first occurrence of \<open>x\<close> in \<open>xs\<close> (the length of \<open>xs\<close> when
  there is none), and the list of the first occurrences, in their order.
\<close>

definition first_pos :: "'a \<Rightarrow> 'a list \<Rightarrow> nat" where
  "first_pos x xs = length (takeWhile (\<lambda>y. y \<noteq> x) xs)"

function keep_first :: "'a list \<Rightarrow> 'a list" where
  "keep_first [] = []"
| "keep_first (x # xs) = x # keep_first (filter (\<lambda>y. y \<noteq> x) xs)"
  by pat_completeness auto
termination
  by (relation "measure length") (simp_all add: le_imp_less_Suc)

text \<open>
  The answer of the backtracking matcher at the start of \<open>s\<close>: the first of the ways
  \<open>rmatch\<close> lists, if there is one.
\<close>

definition first_match :: "bool \<Rightarrow> regex \<Rightarrow> string \<Rightarrow> caps \<Rightarrow> (string \<times> caps) option" where
  "first_match ic r s c = (case rmatch ic r s c of [] \<Rightarrow> None | x # _ \<Rightarrow> Some x)"

text \<open>
  The number a decimal numeral stands for: \<open>ds\<close> are the digits before the dot,
  \<open>fr\<close> is empty or the dot and the digits after it.
\<close>

definition decimal_number :: "string \<Rightarrow> string \<Rightarrow> real" where
  "decimal_number ds fr =
     real (nat_of_digits ds)
     + (case fr of [] \<Rightarrow> 0 | dot # fs \<Rightarrow> real (nat_of_digits fs) / 10 ^ length fs)"

subsection \<open>Example inputs\<close>

definition mk_datetime :: "int \<Rightarrow> int \<Rightarrow> int \<Rightarrow> int \<Rightarrow> int \<Rightarrow> datetime" where
  "mk_datetime y m d h mi = \<lparr>year = y, month = m, day = d, hour = h, minute = mi, second = 0, microsecond = 0\<rparr>"

definition mk_parsed :: "datetime option \<Rightarrow> datetime option \<Rightarrow> real option \<Rightarrow> real option \<Rightarrow> parsed_data" where
  "mk_parsed nor_t dep_t lay cargo = \<lparr>extracted = [], arrival_datetime = None,
     departure_datetime = Some dep_t, nor_datetime = Some nor_t,
     laytime_hours = Some lay, cargo_mt = Some cargo\<rparr>"

text \<open>
  The float that the literal \<^verbatim>\<open>0.3333333333333333\<close> denotes, which is also the float
  nearest to one third: \<open>6004799503160661 / 2\<^sup>5\<^sup>4\<close>.
\<close>

definition float_third :: real where
  "float_third = 6004799503160661 / 18014398509481984"

definition within_example :: parsed_data where
  "within_example = mk_parsed (Some (mk_datetime 2024 3 1 8 0)) (Some (mk_datetime 2024 3 2 4 0)) (Some 24) None"

definition within_example_calc :: laytime_calc where
  "within_example_calc = empty_calc\<lparr>total_time_hours := Some 20, total_time_days := Some (20 / 24),
     laytime_allowed_hours := Some 24, laytime_allowed_days := Some 1,
     laytime_status := Some ''within_limit'', time_saved_hours := Some 4,
     time_saved_days := Some (4 / 24)\<rparr>"

definition short_sample :: string where
  "short_sample = ''NOR: 01/03/2024, 08:00'' @ [newline] @ ''Departure: 01/03/2024, 08:00'' @ [newline] @ ''laytime: 0 hours'' @ [newline] @ ''cargo: 1000 mt''"

definition env0 :: environment where
  "env0 = \<lparr>decode_utf8 = (\<lambda>b. b), fitz = None, now = mk_datetime 2024 3 5 12 30\<rparr>"

definition repeated_laytime :: string where
  "repeated_laytime = ''laytime: 3 days, lay time: 3 days''"

definition full_extraction :: extracted_data where
  "full_extraction = [(''vessel_name'', [''MV Star'']), (''voyage_number'', [''12A'']),
     (''arrival_time'', [''01/03/2024, 06:00'']), (''departure_time'', [''02/03/2024, 14:00'']),
     (''nor_time'', [''01/03/2024, 08:00'']), (''laytime_allowed'', [''24'', ''hours'']),
     (''cargo_quantity'', [''1,000'', ''mt'']), (''berth_info'', [''7'']),
     (''port_name'', [''Karachi''])]"

definition partial_extraction :: extracted_data where
  "partial_extraction = [(''vessel_name'', [''MV Star'']), (''voyage_number'', []),
     (''arrival_time'', [''01/03/2024, 06:00'']), (''departure_time'', []),
     (''nor_time'', []), (''laytime_allowed'', []),
     (''cargo_quantity'', []), (''berth_info'', []), (''port_name'', [])]"

section \<open>Properties\<close>

subsection \<open>Float rounding\<close>

lemma round_half_even_near: "\<bar>of_int (round_half_even y) - y\<bar> \<le> 1 / 2"
proof -
  define r where "r = y - of_int \<lfloor>y\<rfloor>"
  have r: "0 \<le> r" "r < 1" unfolding r_def by linarith+
  have y: "y = of_int \<lfloor>y\<rfloor> + r" by (simp add: r_def)
  consider "r < 1 / 2" | "1 / 2 < r" | "r = 1 / 2" by linarith
  then show ?thesis
  proof cases
    case 1
    then have "round_half_even y = \<lfloor>y\<rfloor>" by (simp add: round_half_even_def Let_def r_def)
    then show ?thesis using 1 r y by simp
  next
    case 2
    then have "round_half_even y = \<lfloor>y\<rfloor> + 1" by (simp add: round_half_even_def Let_def r_def)
    then show ?thesis using 2 r y by simp
  next
    case 3
    then have "round_half_even y = \<lfloor>y\<rfloor> \<or> round_half_even y = \<lfloor>y\<rfloor> + 1"
      by (simp add: round_half_even_def Let_def r_def)
    then show ?thesis using 3 y by auto
  qed
qed

lemma round_half_even_of_int [simp]: "round_half_even (of_int m) = m"
  by (simp add: round_half_even_def)

lemma round_half_even_floor:
  "\<lfloor>y\<rfloor> \<le> round_half_even y" "round_half_even y \<le> \<lfloor>y\<rfloor> + 1"
  by (simp_all add: round_half_even_def Let_def)

lemma exponent_bounds:
  assumes "x \<noteq> 0"
  shows "2 powr of_int \<lfloor>log 2 \<bar>x\<bar>\<rfloor> \<le> \<bar>x\<bar>" "\<bar>x\<bar> < 2 powr (of_int \<lfloor>log 2 \<bar>x\<bar>\<rfloor> + 1)"
proof -
  have "0 < \<bar>x\<bar>" using assms by simp
  from floor_log_eq_powr_iff [OF this, of 2 "\<lfloor>log 2 \<bar>x\<bar>\<rfloor>"]
  show "2 powr of_int \<lfloor>log 2 \<bar>x\<bar>\<rfloor> \<le> \<bar>x\<bar>" "\<bar>x\<bar> < 2 powr (of_int \<lfloor>log 2 \<bar>x\<bar>\<rfloor> + 1)"
    by simp_all
qed

lemma float_round_at:
  assumes "2 powr of_int e \<le> \<bar>x\<bar>" "\<bar>x\<bar> < 2 powr (of_int e + 1)"
  shows "float_round x = of_int (round_half_even (x / 2 powr (of_int e - 52))) * 2 powr (of_int e - 52)"
proof -
  have pos: "0 < \<bar>x\<bar>" using assms(1) by (smt (verit) powr_gt_zero)
  then have "x \<noteq> 0" by simp
  moreover have "\<lfloor>log 2 \<bar>x\<bar>\<rfloor> = e"
    using floor_log_eq_powr_iff [OF pos, of 2 e] assms by simp
  ultimately show ?thesis by (simp add: float_round_def Let_def)
qed

lemma float_round_0 [simp]: "float_round 0 = 0"
  by (simp add: float_round_def)

lemma float_round_pos:
  assumes "0 < x"
  shows "0 < float_round x"
proof -
  let ?e = "\<lfloor>log 2 \<bar>x\<bar>\<rfloor>"
  let ?u = "2 powr (of_int ?e - 52) :: real"
  have x: "x \<noteq> 0" using assms by simp
  have u: "0 < ?u" by simp
  have "2 powr of_int ?e \<le> x" using exponent_bounds(1) [OF x] assms by simp
  then have "2 powr of_int ?e / ?u \<le> x / ?u" using u by (simp add: divide_right_mono)
  moreover have "2 powr of_int ?e / ?u = 2 powr 52" by (simp add: powr_diff)
  ultimately have "1 \<le> x / ?u" by (smt (verit) powr_ge_zero powr_mono powr_zero_eq_one)
  then have "1 \<le> \<lfloor>x / ?u\<rfloor>" by linarith
  with round_half_even_floor(1) [of "x / ?u"] have "0 < round_half_even (x / ?u)" by linarith
  then have "0 < of_int (round_half_even (x / ?u)) * ?u" using u by simp
  then show ?thesis using x by (simp add: float_round_def Let_def)
qed

lemma float_round_minus: "float_round (- x) = - float_round x"
proof (cases "x = 0")
  case True
  then show ?thesis by simp
next
  case False
  have "round_half_even (- y) = - round_half_even y" for y
  proof (cases "y \<in> \<int>")
    case True
    then obtain m where "y = of_int m" by (auto elim: Ints_cases)
    then show ?thesis by (simp flip: of_int_minus)
  next
    case False
    then have f: "\<lfloor>- y\<rfloor> = - \<lfloor>y\<rfloor> - 1"
      by (metis (no_types) Ints_of_int ceiling_def floor_eq_iff add.commute diff_add_cancel
            floor_less_cancel le_floor_iff less_eq_real_def of_int_floor_cancel ceiling_altdef
            minus_diff_eq uminus_add_conv_diff minus_minus)
    have ne: "y - of_int \<lfloor>y\<rfloor> \<noteq> 0" using False by (metis Ints_of_int eq_iff_diff_eq_0)
    have "of_int \<lfloor>y\<rfloor> \<le> y" "y < of_int \<lfloor>y\<rfloor> + 1" by linarith+
    with ne show ?thesis
      unfolding round_half_even_def Let_def f by (auto simp: algebra_simps)
  qed
  then show ?thesis using False by (simp add: float_round_def Let_def)
qed

lemma float_round_neg: "x < 0 \<Longrightarrow> float_round x < 0"
  using float_round_pos [of "- x"] by (simp add: float_round_minus)

lemma float_round_eq_0_iff [simp]: "float_round x = 0 \<longleftrightarrow> x = 0"
proof
  assume z: "float_round x = 0"
  show "x = 0"
  proof (rule ccontr)
    assume "x \<noteq> 0"
    then consider "0 < x" | "x < 0" by linarith
    then show False
    proof cases
      case 1
      from float_round_pos [OF 1] z show False by simp
    next
      case 2
      from float_round_neg [OF 2] z show False by simp
    qed
  qed
next
  assume "x = 0"
  then show "float_round x = 0" by simp
qed

lemma float_round_error: "\<bar>float_round x - x\<bar> \<le> \<bar>x\<bar> / 2 ^ 53"
proof (cases "x = 0")
  case True
  then show ?thesis by simp
next
  case False
  let ?e = "\<lfloor>log 2 \<bar>x\<bar>\<rfloor>"
  let ?u = "2 powr (of_int ?e - 52) :: real"
  let ?r = "of_int (round_half_even (x / ?u)) :: real"
  have u: "0 < ?u" by simp
  have "float_round x - x = (?r - x / ?u) * ?u"
    using False u by (simp add: float_round_def Let_def field_simps)
  then have "\<bar>float_round x - x\<bar> = \<bar>?r - x / ?u\<bar> * ?u"
    using u by (simp add: abs_mult)
  also have "\<dots> \<le> (1 / 2) * ?u"
    using round_half_even_near [of "x / ?u"] u by (simp add: mult_right_mono)
  also have "?u = 2 powr of_int ?e / 2 ^ 52"
    by (simp add: powr_diff)
  also have "(1 / 2) * (2 powr of_int ?e / 2 ^ 52) \<le> (1 / 2) * (\<bar>x\<bar> / 2 ^ 52)"
    using exponent_bounds(1) [OF False] by (simp add: divide_right_mono)
  finally show ?thesis by simp
qed

lemma float_round_of_int:
  assumes "\<bar>m\<bar> < 2 ^ 53"
  shows "float_round (of_int m) = of_int m"
proof (cases "m = 0")
  case True
  then show ?thesis by simp
next
  case False
  let ?x = "of_int m :: real"
  let ?e = "\<lfloor>log 2 \<bar>?x\<bar>\<rfloor>"
  have x: "?x \<noteq> 0" using False by simp
  have one: "1 \<le> \<bar>?x\<bar>" using False by (simp flip: of_int_abs)
  then have e0: "0 \<le> ?e" by simp
  have "(of_int \<bar>m\<bar> :: real) < 2 ^ 53" using assms by (simp only: of_int_less_numeral_power_cancel_iff)
  then have "\<bar>?x\<bar> < 2 ^ 53" by simp
  moreover have "(2::real) powr 53 = 2 ^ 53" by (rule powr_numeral) simp
  moreover have "0 < \<bar>?x\<bar>" using one by linarith
  ultimately have "log 2 \<bar>?x\<bar> < 53"
    using log_less_iff [of 2 "\<bar>?x\<bar>" 53] by simp
  then have e52: "?e \<le> 52" by (simp add: floor_le_iff)
  define k where "k = nat (52 - ?e)"
  have k: "of_int ?e - 52 = - real k" using e52 by (simp add: k_def)
  have u: "2 powr (of_int ?e - 52) = (1 / 2 ^ k :: real)"
    unfolding k by (simp add: powr_minus powr_realpow inverse_eq_divide)
  have "?x / (1 / 2 ^ k) = of_int (m * 2 ^ k)" by simp
  then have "round_half_even (?x / (1 / 2 ^ k)) = m * 2 ^ k"
    by (metis round_half_even_of_int)
  then show ?thesis
    using x by (simp add: float_round_def Let_def u)
qed

subsection \<open>The elapsed hours\<close>

lemma total_seconds_mk_timedelta:
  "total_seconds (mk_timedelta d s us)
     = float_round (real_of_int (d * 86400 + s) + real_of_int us / 1000000)"
proof -
  have a: "us = (us div 1000000) * 1000000 + us mod 1000000" by simp
  have b: "s + us div 1000000 = ((s + us div 1000000) div 86400) * 86400 + (s + us div 1000000) mod 86400"
    by simp
  have i: "((d + (s + us div 1000000) div 86400) * 86400 + (s + us div 1000000) mod 86400) * 1000000
          + us mod 1000000 = (d * 86400 + s) * 1000000 + us"
    using a b by (simp add: algebra_simps)
  have q: "real_of_int (((d + (s + us div 1000000) div 86400) * 86400 + (s + us div 1000000) mod 86400) * 1000000
          + us mod 1000000) / 1000000 = real_of_int (d * 86400 + s) + real_of_int us / 1000000"
    unfolding i by (simp add: field_simps)
  have "total_seconds (mk_timedelta d s us)
          = float_round (real_of_int (((d + (s + us div 1000000) div 86400) * 86400 + (s + us div 1000000) mod 86400) * 1000000
          + us mod 1000000) / 1000000)"
    unfolding total_seconds_def mk_timedelta_def Let_def by simp
  then show ?thesis unfolding q .
qed

lemma seconds_of_sub: "total_seconds (datetime_sub d n) = float_round (exact_seconds n d)"
proof -
  have i: "(toordinal d - toordinal n) * 86400
          + (second d + minute d * 60 + hour d * 3600 - (second n + minute n * 60 + hour n * 3600))
        = (toordinal d - toordinal n) * 86400 + (hour d - hour n) * 3600
          + (minute d - minute n) * 60 + (second d - second n)"
    by (simp add: algebra_simps)
  have "total_seconds (datetime_sub d n)
          = float_round (real_of_int ((toordinal d - toordinal n) * 86400
          + (second d + minute d * 60 + hour d * 3600 - (second n + minute n * 60 + hour n * 3600)))
             + real_of_int (microsecond d - microsecond n) / 1000000)"
    unfolding datetime_sub_def Let_def by (rule total_seconds_mk_timedelta)
  then show ?thesis unfolding i exact_seconds_def .
qed

lemma hours_of_sub: "float_round (total_seconds (datetime_sub d n) / 3600) = elapsed_hours n d"
  unfolding seconds_of_sub elapsed_hours_def ..

text \<open>The float has the sign of the exact number, and is close to it.\<close>

lemma elapsed_hours_sign:
  "elapsed_hours n d < 0 \<longleftrightarrow> exact_hours n d < 0"
  "0 < elapsed_hours n d \<longleftrightarrow> 0 < exact_hours n d"
  "elapsed_hours n d = 0 \<longleftrightarrow> exact_hours n d = 0"
proof -
  let ?s = "exact_seconds n d"
  have sgn: "(float_round x < 0 \<longleftrightarrow> x < 0) \<and> (0 < float_round x \<longleftrightarrow> 0 < x)" for x
    using float_round_pos [of x] float_round_neg [of x] float_round_0
    by (cases "x = 0"; cases "0 < x") (auto simp: not_less less_le)
  have "elapsed_hours n d < 0 \<longleftrightarrow> float_round ?s / 3600 < 0"
    unfolding elapsed_hours_def using sgn by blast
  also have "\<dots> \<longleftrightarrow> ?s < 0" using sgn [of ?s] by simp
  finally show "elapsed_hours n d < 0 \<longleftrightarrow> exact_hours n d < 0"
    by (simp add: exact_hours_def)
  have "0 < elapsed_hours n d \<longleftrightarrow> 0 < float_round ?s / 3600"
    unfolding elapsed_hours_def using sgn by blast
  also have "\<dots> \<longleftrightarrow> 0 < ?s" using sgn [of ?s] by simp
  finally show "0 < elapsed_hours n d \<longleftrightarrow> 0 < exact_hours n d"
    by (simp add: exact_hours_def)
  show "elapsed_hours n d = 0 \<longleftrightarrow> exact_hours n d = 0"
    by (simp add: elapsed_hours_def exact_hours_def)
qed

lemma elapsed_hours_error:
  "\<bar>elapsed_hours n d - exact_hours n d\<bar> \<le> \<bar>exact_hours n d\<bar> / 2 ^ 51"
proof -
  define s where "s = exact_seconds n d"
  define s1 where "s1 = float_round s"
  define h where "h = s1 / 3600"
  define e where "e = s / 3600"
  have 1: "\<bar>s1 - s\<bar> \<le> \<bar>s\<bar> / 2 ^ 53" unfolding s1_def by (rule float_round_error)
  have he: "\<bar>h - e\<bar> \<le> \<bar>e\<bar> / 2 ^ 53"
  proof -
    have "\<bar>h - e\<bar> = \<bar>s1 - s\<bar> / 3600" by (simp add: h_def e_def flip: diff_divide_distrib)
    also have "\<dots> \<le> (\<bar>s\<bar> / 2 ^ 53) / 3600" using 1 by (rule divide_right_mono) simp
    also have "\<dots> = \<bar>e\<bar> / 2 ^ 53" by (simp add: e_def)
    finally show ?thesis .
  qed
  have "\<bar>h\<bar> \<le> \<bar>e\<bar> + \<bar>h - e\<bar>" by linarith
  also have "\<dots> \<le> \<bar>e\<bar> + \<bar>e\<bar> / 2 ^ 53" using he by simp
  also have "\<dots> \<le> 2 * \<bar>e\<bar>" by simp
  finally have hb: "\<bar>h\<bar> \<le> 2 * \<bar>e\<bar>" .
  have "\<bar>float_round h - h\<bar> \<le> \<bar>h\<bar> / 2 ^ 53" by (rule float_round_error)
  also have "\<dots> \<le> (2 * \<bar>e\<bar>) / 2 ^ 53" using hb by (rule divide_right_mono) simp
  finally have 2: "\<bar>float_round h - h\<bar> \<le> (2 * \<bar>e\<bar>) / 2 ^ 53" .
  have "\<bar>float_round h - e\<bar> \<le> \<bar>float_round h - h\<bar> + \<bar>h - e\<bar>" by linarith
  also have "\<dots> \<le> (2 * \<bar>e\<bar>) / 2 ^ 53 + \<bar>e\<bar> / 2 ^ 53" using 2 he by linarith
  also have "\<dots> \<le> \<bar>e\<bar> / 2 ^ 51" by simp
  finally show ?thesis
    by (simp add: elapsed_hours_def exact_hours_def h_def s1_def s_def e_def)
qed

lemma float_round_numeral:
  "\<bar>numeral k :: int\<bar> < 2 ^ 53 \<Longrightarrow> float_round (numeral k) = numeral k"
  "\<bar>numeral k :: int\<bar> < 2 ^ 53 \<Longrightarrow> float_round (- numeral k) = - numeral k"
  using float_round_of_int [of "numeral k"] float_round_of_int [of "- numeral k"] by simp_all

lemma toordinal_2024_03_01: "toordinal (mk_datetime 2024 3 1 h mi) = 738946"
  by (simp add: toordinal_def mk_datetime_def ymd2ord_def days_before_year_def days_before_month_def
      days_in_month_def is_leap_def eval_nat_numeral)

lemma toordinal_2024_03_02: "toordinal (mk_datetime 2024 3 2 h mi) = 738947"
  by (simp add: toordinal_def mk_datetime_def ymd2ord_def days_before_year_def days_before_month_def
      days_in_month_def is_leap_def eval_nat_numeral)

lemma seconds_30: "exact_seconds (mk_datetime 2024 3 1 8 0) (mk_datetime 2024 3 2 14 0) = 108000"
  by (simp add: exact_seconds_def toordinal_2024_03_01 toordinal_2024_03_02) (simp add: mk_datetime_def)

lemma seconds_20: "exact_seconds (mk_datetime 2024 3 1 8 0) (mk_datetime 2024 3 2 4 0) = 72000"
  by (simp add: exact_seconds_def toordinal_2024_03_01 toordinal_2024_03_02) (simp add: mk_datetime_def)

lemma seconds_0: "exact_seconds (mk_datetime 2024 3 1 8 0) (mk_datetime 2024 3 1 8 0) = 0"
  by (simp add: exact_seconds_def)

lemma seconds_neg30: "exact_seconds (mk_datetime 2024 3 2 14 0) (mk_datetime 2024 3 1 8 0) = - 108000"
  by (simp add: exact_seconds_def toordinal_2024_03_01 toordinal_2024_03_02) (simp add: mk_datetime_def)

lemma seconds_third: "exact_seconds (mk_datetime 2024 3 1 8 0) (mk_datetime 2024 3 1 8 20) = 1200"
  by (simp add: exact_seconds_def toordinal_2024_03_01) (simp add: mk_datetime_def)

lemma elapsed_30: "elapsed_hours (mk_datetime 2024 3 1 8 0) (mk_datetime 2024 3 2 14 0) = 30"
  by (simp add: elapsed_hours_def seconds_30 float_round_numeral)

lemma elapsed_20: "elapsed_hours (mk_datetime 2024 3 1 8 0) (mk_datetime 2024 3 2 4 0) = 20"
  by (simp add: elapsed_hours_def seconds_20 float_round_numeral)

lemma elapsed_0: "elapsed_hours (mk_datetime 2024 3 1 8 0) (mk_datetime 2024 3 1 8 0) = 0"
  by (simp add: elapsed_hours_def seconds_0)

lemma elapsed_neg30: "elapsed_hours (mk_datetime 2024 3 2 14 0) (mk_datetime 2024 3 1 8 0) = -30"
  by (simp add: elapsed_hours_def seconds_neg30 float_round_numeral)

text \<open>
  Twenty minutes are a third of an hour, which is no float: the total is the float
  nearest to it, the one that the literal \<^verbatim>\<open>0.3333333333333333\<close> denotes as well.
\<close>

lemma float_round_quarter_to_half:
  assumes "1 / 4 \<le> \<bar>x\<bar>" "\<bar>x\<bar> < 1 / 2"
  shows "float_round x = of_int (round_half_even (x * 18014398509481984)) / 18014398509481984"
proof -
  have u: "(2::real) powr (of_int (- 2) - 52) = 1 / 18014398509481984"
    by (simp add: powr_minus_divide)
  have "(2::real) powr of_int (- 2) = 1 / 4" "(2::real) powr (of_int (- 2) + 1) = 1 / 2"
    by (simp_all add: powr_minus_divide)
  with assms have "2 powr of_int (- 2) \<le> \<bar>x\<bar>" "\<bar>x\<bar> < 2 powr (of_int (- 2) + 1)"
    by simp_all
  then have "float_round x
      = of_int (round_half_even (x / 2 powr (of_int (- 2) - 52))) * 2 powr (of_int (- 2) - 52)"
    by (rule float_round_at)
  then show ?thesis unfolding u by simp
qed

lemma float_round_third: "float_round (1 / 3) = float_third"
proof -
  have "round_half_even (1 / 3 * 18014398509481984) = 6004799503160661"
    by (simp add: round_half_even_def Let_def)
  then show ?thesis
    unfolding float_third_def by (subst float_round_quarter_to_half) simp_all
qed

lemma float_round_literal: "float_round (3333333333333333 / 10000000000000000) = float_third"
proof -
  have "round_half_even (3333333333333333 / 10000000000000000 * 18014398509481984) = 6004799503160661"
    by (simp add: round_half_even_def Let_def)
  then show ?thesis
    unfolding float_third_def by (subst float_round_quarter_to_half) simp_all
qed

lemma elapsed_third: "elapsed_hours (mk_datetime 2024 3 1 8 0) (mk_datetime 2024 3 1 8 20) = float_third"
proof -
  have "float_round 1200 / 3600 = 1 / 3" by (simp add: float_round_numeral)
  then show ?thesis by (simp add: elapsed_hours_def seconds_third float_round_third)
qed

lemma total_time_block_present:
  "total_time_block (Some n) (Some d) lay =
     laytime_efficiency (elapsed_hours n d) lay
       (empty_calc\<lparr>total_time_hours := Some (elapsed_hours n d),
                   total_time_days := Some (elapsed_hours n d / 24)\<rparr>)"
  unfolding total_time_block_def Let_def hours_of_sub by simp

lemma total_hours_efficiency [simp]:
  "total_time_hours (laytime_efficiency t lay c) = total_time_hours c"
  "total_time_days (laytime_efficiency t lay c) = total_time_days c"
  by (simp_all add: laytime_efficiency_def Let_def)

lemma calculate_laytime_present:
  assumes "dict_get (nor_datetime pd) = Some n" "dict_get (departure_datetime pd) = Some d"
  shows "calculate_laytime pd =
     cargo_block (dict_get (cargo_mt pd))
       (laytime_efficiency (elapsed_hours n d) (dict_get (laytime_hours pd))
          (empty_calc\<lparr>total_time_hours := Some (elapsed_hours n d),
                      total_time_days := Some (elapsed_hours n d / 24)\<rparr>))"
  using assms by (simp add: calculate_laytime_def Let_def total_time_block_present)

lemma cargo_block_fields:
  assumes "cargo_block cargo c = Inr r"
  shows "total_time_hours r = total_time_hours c" "total_time_days r = total_time_days c"
    "laytime_status r = laytime_status c" "time_saved_hours r = time_saved_hours c"
    "time_exceeded_hours r = time_exceeded_hours c" "time_saved_days r = time_saved_days c"
    "time_exceeded_days r = time_exceeded_days c"
    "laytime_allowed_hours r = laytime_allowed_hours c"
  using assms
  by (auto simp: cargo_block_def py_div_def split: if_splits sum.splits)

lemma cargo_block_ok:
  assumes "total_time_hours c = Some t" "total_time_days c = Some (t / 24)"
    "t \<noteq> 0 \<or> \<not> truthy_float cargo"
  shows "\<exists>r. cargo_block cargo c = Inr r"
  using assms by (auto simp: cargo_block_def py_div_def)

subsection \<open>C1: the laytime classification\<close>

text \<open>
  C1 (amended). For every input where \<open>nor_time\<close>, \<open>departure_time\<close> and a nonzero
  \<open>laytime_allowed_hours\<close> are present, and the total is not zero with a nonzero cargo
  quantity, the laytime calculation reports as \<open>total_hours\<close> the elapsed hours from
  \<open>nor_time\<close> to \<open>departure_time\<close> as a float (the exact hours up to the rounding of
  the two divisions, less than one part in \<open>2\<^sup>5\<^sup>1\<close>), and classifies the result on that
  reported total: \<open>within_limit\<close> with \<open>saved_hours = allowed - total_hours\<close> when
  \<open>total_hours \<le> allowed\<close>, else \<open>exceeded\<close> with
  \<open>exceeded_hours = total_hours - allowed\<close>.
\<close>

theorem C1_laytime_classification:
  assumes nor: "dict_get (nor_datetime pd) = Some n"
    and dep: "dict_get (departure_datetime pd) = Some d"
    and lay: "dict_get (laytime_hours pd) = Some a"
    and nonzero: "a \<noteq> 0"
    and no_zero_division: "exact_hours n d \<noteq> 0 \<or> \<not> truthy_float (dict_get (cargo_mt pd))"
  shows "\<exists>c t. calculate_laytime pd = Inr c
           \<and> total_time_hours c = Some t
           \<and> t = float_round (float_round (exact_seconds n d) / 3600)
           \<and> \<bar>t - exact_hours n d\<bar> \<le> \<bar>exact_hours n d\<bar> / 2 ^ 51
           \<and> (if t \<le> a
               then laytime_status c = Some ''within_limit''
                    \<and> time_saved_hours c = Some (a - t)
                    \<and> time_exceeded_hours c = None
               else laytime_status c = Some ''exceeded''
                    \<and> time_exceeded_hours c = Some (t - a)
                    \<and> time_saved_hours c = None)"
proof -
  let ?t = "elapsed_hours n d"
  let ?c = "laytime_efficiency ?t (Some a)
              (empty_calc\<lparr>total_time_hours := Some ?t, total_time_days := Some (?t / 24)\<rparr>)"
  have eq: "calculate_laytime pd = cargo_block (dict_get (cargo_mt pd)) ?c"
    using calculate_laytime_present [OF nor dep] lay by simp
  have "\<exists>r. cargo_block (dict_get (cargo_mt pd)) ?c = Inr r"
    by (rule cargo_block_ok [where t = ?t]) (use no_zero_division elapsed_hours_sign(3) in simp_all)
  then obtain r where r: "cargo_block (dict_get (cargo_mt pd)) ?c = Inr r" ..
  have fields: "total_time_hours r = Some ?t" "laytime_status r = laytime_status ?c"
    "time_saved_hours r = time_saved_hours ?c" "time_exceeded_hours r = time_exceeded_hours ?c"
    using cargo_block_fields [OF r] by simp_all
  have cls: "if ?t \<le> a
        then laytime_status ?c = Some ''within_limit'' \<and> time_saved_hours ?c = Some (a - ?t)
             \<and> time_exceeded_hours ?c = None
        else laytime_status ?c = Some ''exceeded'' \<and> time_exceeded_hours ?c = Some (?t - a)
             \<and> time_saved_hours ?c = None"
    using nonzero by (simp add: laytime_efficiency_def truthy_float_def Let_def empty_calc_def)
  have res: "calculate_laytime pd = Inr r" using eq r by simp
  have cls_r: "if ?t \<le> a
        then laytime_status r = Some ''within_limit'' \<and> time_saved_hours r = Some (a - ?t)
             \<and> time_exceeded_hours r = None
        else laytime_status r = Some ''exceeded'' \<and> time_exceeded_hours r = Some (?t - a)
             \<and> time_saved_hours r = None"
    using cls unfolding fields by this
  show ?thesis
  proof (intro exI conjI)
    show "calculate_laytime pd = Inr r" by (rule res)
    show "total_time_hours r = Some ?t" by (rule fields(1))
    show "?t = float_round (float_round (exact_seconds n d) / 3600)" by (rule elapsed_hours_def)
    show "\<bar>?t - exact_hours n d\<bar> \<le> \<bar>exact_hours n d\<bar> / 2 ^ 51" by (rule elapsed_hours_error)
    show "if ?t \<le> a
        then laytime_status r = Some ''within_limit'' \<and> time_saved_hours r = Some (a - ?t)
             \<and> time_exceeded_hours r = None
        else laytime_status r = Some ''exceeded'' \<and> time_exceeded_hours r = Some (?t - a)
             \<and> time_saved_hours r = None"
      by (rule cls_r)
  qed
qed

text \<open>
  The witness is the specification's example: NOR 2024-03-01 08:00, departure
  2024-03-02 14:00, 24 hours allowed: exceeded by 6 hours. A second one has a total that
  is no float: from 08:00 to 08:20 with the allowance \<^verbatim>\<open>0.3333333333333333\<close> the
  reported total is the float nearest to a third, equal to the allowance, and the result
  is within the limit with nothing saved.
\<close>

theorem C1_witness:
  "(\<exists>c. calculate_laytime (mk_parsed (Some (mk_datetime 2024 3 1 8 0)) (Some (mk_datetime 2024 3 2 14 0)) (Some 24) None) = Inr c
        \<and> total_time_hours c = Some 30 \<and> laytime_status c = Some ''exceeded''
        \<and> time_exceeded_hours c = Some 6)
   \<and> float_round (3333333333333333 / 10000000000000000) = float_third
   \<and> (\<exists>c. calculate_laytime (mk_parsed (Some (mk_datetime 2024 3 1 8 0)) (Some (mk_datetime 2024 3 1 8 20)) (Some float_third) None) = Inr c
        \<and> total_time_hours c = Some float_third \<and> laytime_status c = Some ''within_limit''
        \<and> time_saved_hours c = Some 0)"
proof -
  have third: "float_third \<noteq> 0" by (simp add: float_third_def)
  have e30: "float_round (float_round (exact_seconds (mk_datetime 2024 3 1 8 0) (mk_datetime 2024 3 2 14 0)) / 3600) = 30"
    using elapsed_30 by (simp add: elapsed_hours_def)
  have e3: "float_round (float_round (exact_seconds (mk_datetime 2024 3 1 8 0) (mk_datetime 2024 3 1 8 20)) / 3600) = float_third"
    using elapsed_third by (simp add: elapsed_hours_def)
  have a: "\<exists>c. calculate_laytime (mk_parsed (Some (mk_datetime 2024 3 1 8 0)) (Some (mk_datetime 2024 3 2 14 0)) (Some 24) None) = Inr c
        \<and> total_time_hours c = Some 30 \<and> laytime_status c = Some ''exceeded''
        \<and> time_exceeded_hours c = Some 6"
    using C1_laytime_classification [of "mk_parsed (Some (mk_datetime 2024 3 1 8 0)) (Some (mk_datetime 2024 3 2 14 0)) (Some 24) None"
      "mk_datetime 2024 3 1 8 0" "mk_datetime 2024 3 2 14 0" 24]
    unfolding e30
    by (auto simp: mk_parsed_def dict_get_def truthy_float_def)
  have b: "\<exists>c. calculate_laytime (mk_parsed (Some (mk_datetime 2024 3 1 8 0)) (Some (mk_datetime 2024 3 1 8 20)) (Some float_third) None) = Inr c
        \<and> total_time_hours c = Some float_third \<and> laytime_status c = Some ''within_limit''
        \<and> time_saved_hours c = Some 0"
    using C1_laytime_classification [of "mk_parsed (Some (mk_datetime 2024 3 1 8 0)) (Some (mk_datetime 2024 3 1 8 20)) (Some float_third) None"
      "mk_datetime 2024 3 1 8 0" "mk_datetime 2024 3 1 8 20" float_third] third
    unfolding e3
    by (auto simp: mk_parsed_def dict_get_def truthy_float_def)
  from a float_round_literal b show ?thesis by (intro conjI)
qed

text \<open>
  The claim as stated fails where the allowance is present and zero: with the same two
  times and an allowance of \<open>0.0\<close> the total of 30 hours is reported and no status at all.
\<close>

theorem C1_counterexample:
  "dict_get (nor_datetime (mk_parsed (Some (mk_datetime 2024 3 1 8 0)) (Some (mk_datetime 2024 3 2 14 0)) (Some 0) None)) = Some (mk_datetime 2024 3 1 8 0)
   \<and> dict_get (departure_datetime (mk_parsed (Some (mk_datetime 2024 3 1 8 0)) (Some (mk_datetime 2024 3 2 14 0)) (Some 0) None)) = Some (mk_datetime 2024 3 2 14 0)
   \<and> dict_get (laytime_hours (mk_parsed (Some (mk_datetime 2024 3 1 8 0)) (Some (mk_datetime 2024 3 2 14 0)) (Some 0) None)) = Some 0
   \<and> calculate_laytime (mk_parsed (Some (mk_datetime 2024 3 1 8 0)) (Some (mk_datetime 2024 3 2 14 0)) (Some 0) None)
       = Inr (empty_calc\<lparr>total_time_hours := Some 30, total_time_days := Some (30 / 24)\<rparr>)
   \<and> laytime_status (empty_calc\<lparr>total_time_hours := Some 30, total_time_days := Some (30 / 24)\<rparr>) = None"
  by (simp add: calculate_laytime_present [where n = "mk_datetime 2024 3 1 8 0" and d = "mk_datetime 2024 3 2 14 0"]
        mk_parsed_def dict_get_def elapsed_30 laytime_efficiency_def truthy_float_def cargo_block_def empty_calc_def)

subsection \<open>C2: a departure earlier than the notice of readiness\<close>

text \<open>
  C2 (amended). For every input where \<open>departure_time\<close> is earlier than \<open>nor_time\<close>, the
  laytime calculation returns its calculations, not an error, and reports the negative
  \<open>total_hours\<close> as it is; the result holds no diagnostic (it has no such field), and
  nothing forces the classification to be indeterminate: the status is absent only when
  the allowance is absent or zero, and with a nonzero allowance \<open>a\<close> it is
  \<open>within_limit\<close> with \<open>saved_hours = a - total_hours\<close> when \<open>total_hours \<le> a\<close>
  (so for every positive allowance), \<open>exceeded\<close> otherwise.
\<close>

theorem C2_reversed_interval:
  assumes nor: "dict_get (nor_datetime pd) = Some n"
    and dep: "dict_get (departure_datetime pd) = Some d"
    and reversed: "elapsed_hours n d < 0"
  shows "\<exists>c. calculate_laytime pd = Inr c
           \<and> total_time_hours c = Some (elapsed_hours n d)
           \<and> (if truthy_float (dict_get (laytime_hours pd))
               then (if elapsed_hours n d \<le> the (dict_get (laytime_hours pd))
                     then laytime_status c = Some ''within_limit''
                          \<and> time_saved_hours c
                              = Some (the (dict_get (laytime_hours pd)) - elapsed_hours n d)
                     else laytime_status c = Some ''exceeded'')
               else laytime_status c = None)"
proof -
  let ?t = "elapsed_hours n d"
  let ?lay = "dict_get (laytime_hours pd)"
  let ?c = "laytime_efficiency ?t ?lay
              (empty_calc\<lparr>total_time_hours := Some ?t, total_time_days := Some (?t / 24)\<rparr>)"
  have eq: "calculate_laytime pd = cargo_block (dict_get (cargo_mt pd)) ?c"
    using calculate_laytime_present [OF nor dep] by simp
  have "\<exists>r. cargo_block (dict_get (cargo_mt pd)) ?c = Inr r"
    by (rule cargo_block_ok [where t = ?t]) (use reversed in simp_all)
  then obtain r where r: "cargo_block (dict_get (cargo_mt pd)) ?c = Inr r" ..
  have fields: "total_time_hours r = Some ?t" "laytime_status r = laytime_status ?c"
    "time_saved_hours r = time_saved_hours ?c"
    using cargo_block_fields [OF r] by simp_all
  have "if truthy_float ?lay
        then (if ?t \<le> the ?lay
              then laytime_status ?c = Some ''within_limit''
                   \<and> time_saved_hours ?c = Some (the ?lay - ?t)
              else laytime_status ?c = Some ''exceeded'')
        else laytime_status ?c = None"
    by (simp add: laytime_efficiency_def Let_def empty_calc_def)
  with eq r fields show ?thesis by simp
qed

text \<open>
  The witness: NOR 2024-03-02 14:00, departure 2024-03-01 08:00, 24 hours allowed. The
  calculation reports \<open>-30\<close> hours, within the limit, with 54 hours saved.
\<close>

theorem C2_witness:
  "elapsed_hours (mk_datetime 2024 3 2 14 0) (mk_datetime 2024 3 1 8 0) < 0
   \<and> (\<exists>c. calculate_laytime (mk_parsed (Some (mk_datetime 2024 3 2 14 0)) (Some (mk_datetime 2024 3 1 8 0)) (Some 24) None) = Inr c
        \<and> total_time_hours c = Some (- 30) \<and> laytime_status c = Some ''within_limit''
        \<and> time_saved_hours c = Some 54)"
  using C2_reversed_interval [of "mk_parsed (Some (mk_datetime 2024 3 2 14 0)) (Some (mk_datetime 2024 3 1 8 0)) (Some 24) None"
      "mk_datetime 2024 3 2 14 0" "mk_datetime 2024 3 1 8 0"]
  by (auto simp: mk_parsed_def dict_get_def truthy_float_def elapsed_neg30)

text \<open>
  The claim as stated fails at that input: the departure is earlier, and the result is
  neither indeterminate nor free of a negative total.
\<close>

theorem C2_counterexample:
  "elapsed_hours (mk_datetime 2024 3 2 14 0) (mk_datetime 2024 3 1 8 0) < 0
   \<and> calculate_laytime (mk_parsed (Some (mk_datetime 2024 3 2 14 0)) (Some (mk_datetime 2024 3 1 8 0)) (Some 24) None)
       = Inr (empty_calc\<lparr>total_time_hours := Some (- 30), total_time_days := Some (- 30 / 24),
                laytime_allowed_hours := Some 24, laytime_allowed_days := Some 1,
                laytime_status := Some ''within_limit'', time_saved_hours := Some 54,
                time_saved_days := Some (54 / 24)\<rparr>)"
  by (simp add: calculate_laytime_present [where n = "mk_datetime 2024 3 2 14 0" and d = "mk_datetime 2024 3 1 8 0"]
        mk_parsed_def dict_get_def elapsed_neg30 laytime_efficiency_def truthy_float_def cargo_block_def empty_calc_def)

subsection \<open>C5: the cargo handling rate\<close>

text \<open>
  C5 (amended). For every input where \<open>cargo_tons\<close> is present and not zero and
  \<open>total_hours > 0\<close>, the laytime calculation attaches
  \<open>cargo_rate_mt_per_hour = cargo_tons / total_hours\<close> and
  \<open>cargo_rate_mt_per_day = cargo_tons / (total_hours / 24)\<close>, whatever the allowance
  and so whatever the classification.
\<close>

theorem C5_cargo_rate:
  assumes nor: "dict_get (nor_datetime pd) = Some n"
    and dep: "dict_get (departure_datetime pd) = Some d"
    and positive: "0 < elapsed_hours n d"
    and cargo: "dict_get (cargo_mt pd) = Some tons"
    and nonzero: "tons \<noteq> 0"
  shows "\<exists>c. calculate_laytime pd = Inr c
           \<and> total_time_hours c = Some (elapsed_hours n d)
           \<and> cargo_rate_mt_per_hour c = Some (tons / elapsed_hours n d)
           \<and> cargo_rate_mt_per_day c = Some (tons / (elapsed_hours n d / 24))"
proof -
  let ?t = "elapsed_hours n d"
  let ?c = "laytime_efficiency ?t (dict_get (laytime_hours pd))
              (empty_calc\<lparr>total_time_hours := Some ?t, total_time_days := Some (?t / 24)\<rparr>)"
  have eq: "calculate_laytime pd = cargo_block (Some tons) ?c"
    using calculate_laytime_present [OF nor dep] cargo by simp
  have "cargo_block (Some tons) ?c
          = Inr (?c\<lparr>cargo_rate_mt_per_hour := Some (tons / ?t),
                     cargo_rate_mt_per_day := Some (tons / (?t / 24))\<rparr>)"
    using positive nonzero by (simp add: cargo_block_def py_div_def truthy_float_def)
  with eq show ?thesis by simp
qed

text \<open>
  The witness is the specification's example: 1000 tons in 20 hours (NOR 2024-03-01
  08:00, departure 2024-03-02 04:00) are 50 tons per hour and 1200 per day.
\<close>

theorem C5_witness:
  "0 < elapsed_hours (mk_datetime 2024 3 1 8 0) (mk_datetime 2024 3 2 4 0)
   \<and> (\<exists>c. calculate_laytime (mk_parsed (Some (mk_datetime 2024 3 1 8 0)) (Some (mk_datetime 2024 3 2 4 0)) None (Some 1000)) = Inr c
        \<and> total_time_hours c = Some 20
        \<and> cargo_rate_mt_per_hour c = Some 50 \<and> cargo_rate_mt_per_day c = Some 1200)"
  using C5_cargo_rate [of "mk_parsed (Some (mk_datetime 2024 3 1 8 0)) (Some (mk_datetime 2024 3 2 4 0)) None (Some 1000)"
      "mk_datetime 2024 3 1 8 0" "mk_datetime 2024 3 2 4 0" 1000]
  by (auto simp: mk_parsed_def dict_get_def elapsed_20)

text \<open>
  The claim as stated fails where the cargo quantity is present and zero: in the same 20
  hours the rates would be \<open>0.0\<close>, and the result holds no rate.
\<close>

theorem C5_counterexample:
  "dict_get (cargo_mt (mk_parsed (Some (mk_datetime 2024 3 1 8 0)) (Some (mk_datetime 2024 3 2 4 0)) None (Some 0))) = Some 0
   \<and> calculate_laytime (mk_parsed (Some (mk_datetime 2024 3 1 8 0)) (Some (mk_datetime 2024 3 2 4 0)) None (Some 0))
       = Inr (empty_calc\<lparr>total_time_hours := Some 20, total_time_days := Some (20 / 24)\<rparr>)
   \<and> cargo_rate_mt_per_hour (empty_calc\<lparr>total_time_hours := Some 20, total_time_days := Some (20 / 24)\<rparr>) = None
   \<and> cargo_rate_mt_per_day (empty_calc\<lparr>total_time_hours := Some 20, total_time_days := Some (20 / 24)\<rparr>) = None"
  by (simp add: calculate_laytime_present [where n = "mk_datetime 2024 3 1 8 0" and d = "mk_datetime 2024 3 2 4 0"]
        mk_parsed_def dict_get_def elapsed_20 laytime_efficiency_def truthy_float_def cargo_block_def empty_calc_def)

lemma calculate_laytime_status_cases:
  assumes "calculate_laytime pd = Inr c"
  shows "laytime_status c = None
       \<or> (\<exists>s. laytime_status c = Some ''within_limit'' \<and> time_saved_hours c = Some s
               \<and> time_saved_days c = Some (s / 24))
       \<or> (\<exists>e. laytime_status c = Some ''exceeded'' \<and> time_exceeded_hours c = Some e
               \<and> time_exceeded_days c = Some (e / 24))"
proof -
  let ?tb = "total_time_block (dict_get (nor_datetime pd)) (dict_get (departure_datetime pd))
               (dict_get (laytime_hours pd))"
  have r: "cargo_block (dict_get (cargo_mt pd)) ?tb = Inr c"
    using assms by (simp add: calculate_laytime_def Let_def)
  have "laytime_status ?tb = None
       \<or> (\<exists>s. laytime_status ?tb = Some ''within_limit'' \<and> time_saved_hours ?tb = Some s
               \<and> time_saved_days ?tb = Some (s / 24))
       \<or> (\<exists>e. laytime_status ?tb = Some ''exceeded'' \<and> time_exceeded_hours ?tb = Some e
               \<and> time_exceeded_days ?tb = Some (e / 24))"
    by (simp add: total_time_block_def laytime_efficiency_def Let_def empty_calc_def
          split: option.splits)
  then show ?thesis using cargo_block_fields [OF r] by simp
qed

subsection \<open>C4: demurrage and despatch\<close>

text \<open>
  C4. For every laytime classification the calculator produces: on \<open>exceeded\<close> the
  financial analysis reports a demurrage amount of \<open>(exceeded_hours / 24) * 25000\<close>,
  tagged \<open>negative\<close>; on \<open>within_limit\<close> a despatch amount of
  \<open>(saved_hours / 24) * 12500\<close>, tagged \<open>positive\<close>; each with the rate used. Every
  financial result, also the one for an error or for no classification, carries the
  rates and the note that they are examples to be verified from the charter party.
\<close>

theorem C4_financial_analysis:
  assumes "calculate_laytime pd = Inr c"
  shows "(laytime_status c = Some ''exceeded'' \<longrightarrow>
            (\<exists>e. time_exceeded_hours c = Some e
               \<and> demurrage_amount_usd (analyze_financial_implications pd (Inr c))
                   = Some (e / 24 * demurrage_rate_usd_per_day the_example_rates)
               \<and> demurrage_rate_used (analyze_financial_implications pd (Inr c))
                   = Some (demurrage_rate_usd_per_day the_example_rates)
               \<and> financial_impact (analyze_financial_implications pd (Inr c)) = Some ''negative''
               \<and> despatch_amount_usd (analyze_financial_implications pd (Inr c)) = None))
       \<and> (laytime_status c = Some ''within_limit'' \<longrightarrow>
            (\<exists>s. time_saved_hours c = Some s
               \<and> despatch_amount_usd (analyze_financial_implications pd (Inr c))
                   = Some (s / 24 * despatch_rate_usd_per_day the_example_rates)
               \<and> despatch_rate_used (analyze_financial_implications pd (Inr c))
                   = Some (despatch_rate_usd_per_day the_example_rates)
               \<and> financial_impact (analyze_financial_implications pd (Inr c)) = Some ''positive''
               \<and> demurrage_amount_usd (analyze_financial_implications pd (Inr c)) = None))
       \<and> demurrage_rate_usd_per_day the_example_rates = 25000
       \<and> despatch_rate_usd_per_day the_example_rates = 12500
       \<and> (\<forall>lc. rates (analyze_financial_implications pd lc) = the_example_rates
               \<and> fin_note (analyze_financial_implications pd lc)
                   = ''Rates are examples. Actual rates should be verified from charter party.'')"
proof -
  have always: "rates (analyze_financial_implications pd lc) = the_example_rates
      \<and> fin_note (analyze_financial_implications pd lc)
          = ''Rates are examples. Actual rates should be verified from charter party.''" for lc
    by (simp add: analyze_financial_implications_def empty_financial_def the_note_def Let_def
          split: sum.splits option.splits)
  have exceeded: "\<exists>e. time_exceeded_hours c = Some e
               \<and> demurrage_amount_usd (analyze_financial_implications pd (Inr c))
                   = Some (e / 24 * demurrage_rate_usd_per_day the_example_rates)
               \<and> demurrage_rate_used (analyze_financial_implications pd (Inr c))
                   = Some (demurrage_rate_usd_per_day the_example_rates)
               \<and> financial_impact (analyze_financial_implications pd (Inr c)) = Some ''negative''
               \<and> despatch_amount_usd (analyze_financial_implications pd (Inr c)) = None"
    if st: "laytime_status c = Some ''exceeded''"
  proof -
    from calculate_laytime_status_cases [OF assms] st
    obtain e where e: "time_exceeded_hours c = Some e" "time_exceeded_days c = Some (e / 24)"
      by auto
    show ?thesis
      using st e
      by (simp add: analyze_financial_implications_def empty_financial_def get_default0_def Let_def)
  qed
  have within: "\<exists>s. time_saved_hours c = Some s
               \<and> despatch_amount_usd (analyze_financial_implications pd (Inr c))
                   = Some (s / 24 * despatch_rate_usd_per_day the_example_rates)
               \<and> despatch_rate_used (analyze_financial_implications pd (Inr c))
                   = Some (despatch_rate_usd_per_day the_example_rates)
               \<and> financial_impact (analyze_financial_implications pd (Inr c)) = Some ''positive''
               \<and> demurrage_amount_usd (analyze_financial_implications pd (Inr c)) = None"
    if st: "laytime_status c = Some ''within_limit''"
  proof -
    from calculate_laytime_status_cases [OF assms] st
    obtain s where s: "time_saved_hours c = Some s" "time_saved_days c = Some (s / 24)"
      by auto
    show ?thesis
      using st s
      by (simp add: analyze_financial_implications_def empty_financial_def get_default0_def Let_def)
  qed
  have "demurrage_rate_usd_per_day the_example_rates = 25000"
    "despatch_rate_usd_per_day the_example_rates = 12500"
    by (simp_all add: the_example_rates_def)
  with always exceeded within show ?thesis by blast
qed

text \<open>
  The witness is the specification's example: NOR 2024-03-01 08:00, departure
  2024-03-02 04:00, 24 hours allowed. Four hours are saved, and the despatch is
  \<open>(4 / 24) * 12500 = 6250 / 3\<close>, which is 2083.33 to two decimals (the amount itself
  is not rounded).
\<close>

theorem C4_witness:
  "laytime_status (within_example_calc) = Some ''within_limit''
   \<and> time_saved_hours within_example_calc = Some 4
   \<and> calculate_laytime within_example = Inr within_example_calc
   \<and> despatch_amount_usd (analyze_financial_implications within_example (Inr within_example_calc))
       = Some (4 / 24 * 12500)
   \<and> \<bar>4 / 24 * 12500 - 2083.33\<bar> < (0.005 :: real)
   \<and> financial_impact (analyze_financial_implications within_example (Inr within_example_calc))
       = Some ''positive''
   \<and> despatch_rate_used (analyze_financial_implications within_example (Inr within_example_calc))
       = Some 12500
   \<and> fin_note (analyze_financial_implications within_example (Inr within_example_calc))
       = ''Rates are examples. Actual rates should be verified from charter party.''"
proof -
  have c: "calculate_laytime within_example = Inr within_example_calc"
    by (simp add: within_example_def within_example_calc_def
        calculate_laytime_present [where n = "mk_datetime 2024 3 1 8 0" and d = "mk_datetime 2024 3 2 4 0"]
        mk_parsed_def dict_get_def elapsed_20 laytime_efficiency_def truthy_float_def cargo_block_def empty_calc_def)
  have st: "laytime_status within_example_calc = Some ''within_limit''"
    "time_saved_hours within_example_calc = Some 4"
    by (simp_all add: within_example_calc_def empty_calc_def)
  from C4_financial_analysis [OF c] st c show ?thesis
    by auto
qed

lemma document_text_now: "document_text (env\<lparr>now := t\<rparr>) c fname = document_text env c fname"
  by (cases c) (auto simp: document_text_def Let_def)

subsection \<open>C3: two calls with the same arguments\<close>

text \<open>
  C3 (amended). Two calls of \<open>parse_sof_document\<close> with the same content and file name
  (and the same decoder and PDF reader) return results that are equal in every field but
  \<open>analysis_timestamp\<close>, which is the clock reading of each call in ISO format: the
  result of a call at the reading \<open>t1\<close> is the result of a call at \<open>t2\<close> with the
  timestamp replaced.
\<close>

theorem C3_equal_up_to_timestamp:
  "parse_sof_document (env\<lparr>now := t1\<rparr>) c fname
     = (parse_sof_document (env\<lparr>now := t2\<rparr>) c fname)\<lparr>analysis_timestamp := isoformat t1\<rparr>
   \<and> analysis_timestamp (parse_sof_document (env\<lparr>now := t1\<rparr>) c fname) = isoformat t1"
  by (simp add: parse_sof_document_def document_text_now Let_def)

lemma isoformat_1230: "isoformat (mk_datetime 2024 3 5 12 30) = ''2024-03-05T12:30:00''"
  by code_simp

lemma isoformat_1231: "isoformat (mk_datetime 2024 3 5 12 31) = ''2024-03-05T12:31:00''"
  by code_simp

text \<open>
  The claim as stated fails: the same empty text under the same file name, parsed at
  12:30 and at 12:31, gives two results that differ.
\<close>

theorem C3_counterexample:
  "parse_sof_document (env0\<lparr>now := mk_datetime 2024 3 5 12 30\<rparr>) (Text []) ''sof.txt''
     \<noteq> parse_sof_document (env0\<lparr>now := mk_datetime 2024 3 5 12 31\<rparr>) (Text []) ''sof.txt''"
proof
  assume "parse_sof_document (env0\<lparr>now := mk_datetime 2024 3 5 12 30\<rparr>) (Text []) ''sof.txt''
     = parse_sof_document (env0\<lparr>now := mk_datetime 2024 3 5 12 31\<rparr>) (Text []) ''sof.txt''"
  then have "analysis_timestamp (parse_sof_document (env0\<lparr>now := mk_datetime 2024 3 5 12 30\<rparr>) (Text []) ''sof.txt'')
     = analysis_timestamp (parse_sof_document (env0\<lparr>now := mk_datetime 2024 3 5 12 31\<rparr>) (Text []) ''sof.txt'')"
    by simp
  then have "isoformat (mk_datetime 2024 3 5 12 30) = isoformat (mk_datetime 2024 3 5 12 31)"
    by (simp add: parse_sof_document_def Let_def)
  then show False
    by (simp add: isoformat_1230 isoformat_1231)
qed

lemma first_candidate_Cons: "map_of e key = Some (c # cs) \<Longrightarrow> first_candidate e key = Some c"
  by (simp add: first_candidate_def)

subsection \<open>C9: only the first candidate is normalised\<close>

text \<open>
  C9. For each of the five normalised fields whose candidate list is not empty, the
  normalised value is the normaliser's result on the first candidate: no later candidate
  and no other field has a part in it. So two extractions whose lists for the field start
  with the same candidate give the same normalised value.
\<close>

theorem C9_first_candidate_only:
  "(map_of e ''arrival_time'' = Some (c # cs) \<longrightarrow>
      arrival_datetime (parse_dates_and_times e) = Some (parse_datetime c))
   \<and> (map_of e ''departure_time'' = Some (c # cs) \<longrightarrow>
      departure_datetime (parse_dates_and_times e) = Some (parse_datetime c))
   \<and> (map_of e ''nor_time'' = Some (c # cs) \<longrightarrow>
      nor_datetime (parse_dates_and_times e) = Some (parse_datetime c))
   \<and> (map_of e ''laytime_allowed'' = Some (c # cs) \<longrightarrow>
      laytime_hours (parse_dates_and_times e) = Some (parse_laytime c))
   \<and> (map_of e ''cargo_quantity'' = Some (c # cs) \<longrightarrow>
      cargo_mt (parse_dates_and_times e) = Some (parse_cargo_quantity c))
   \<and> (first_candidate e ''arrival_time'' = first_candidate e' ''arrival_time'' \<longrightarrow>
      arrival_datetime (parse_dates_and_times e) = arrival_datetime (parse_dates_and_times e'))
   \<and> (first_candidate e ''departure_time'' = first_candidate e' ''departure_time'' \<longrightarrow>
      departure_datetime (parse_dates_and_times e) = departure_datetime (parse_dates_and_times e'))
   \<and> (first_candidate e ''nor_time'' = first_candidate e' ''nor_time'' \<longrightarrow>
      nor_datetime (parse_dates_and_times e) = nor_datetime (parse_dates_and_times e'))
   \<and> (first_candidate e ''laytime_allowed'' = first_candidate e' ''laytime_allowed'' \<longrightarrow>
      laytime_hours (parse_dates_and_times e) = laytime_hours (parse_dates_and_times e'))
   \<and> (first_candidate e ''cargo_quantity'' = first_candidate e' ''cargo_quantity'' \<longrightarrow>
      cargo_mt (parse_dates_and_times e) = cargo_mt (parse_dates_and_times e'))"
  by (simp add: parse_dates_and_times_def first_candidate_Cons)

lemma parse_datetime_0800: "parse_datetime ''01/03/2024, 08:00'' = Some (mk_datetime 2024 3 1 8 0)"
  by code_simp

text \<open>
  The witness: two NOR candidates, of which the second would be a different time; the
  first one alone is parsed.
\<close>

theorem C9_witness:
  "map_of [(''nor_time'', [''01/03/2024, 08:00'', ''02/03/2024, 09:00''])] ''nor_time''
     = Some (''01/03/2024, 08:00'' # [''02/03/2024, 09:00''])
   \<and> nor_datetime (parse_dates_and_times [(''nor_time'', [''01/03/2024, 08:00'', ''02/03/2024, 09:00''])])
     = Some (Some (mk_datetime 2024 3 1 8 0))
   \<and> nor_datetime (parse_dates_and_times [(''nor_time'', [''01/03/2024, 08:00''])])
     = nor_datetime (parse_dates_and_times [(''nor_time'', [''01/03/2024, 08:00'', ''02/03/2024, 09:00''])])"
proof -
  have m: "map_of [(''nor_time'', [''01/03/2024, 08:00'', ''02/03/2024, 09:00''])] ''nor_time''
     = Some (''01/03/2024, 08:00'' # [''02/03/2024, 09:00''])"
    by simp
  have f: "first_candidate [(''nor_time'', [''01/03/2024, 08:00''])] ''nor_time''
     = first_candidate [(''nor_time'', [''01/03/2024, 08:00'', ''02/03/2024, 09:00''])] ''nor_time''"
    by (simp add: first_candidate_def)
  from C9_first_candidate_only [of "[(''nor_time'', [''01/03/2024, 08:00'', ''02/03/2024, 09:00''])]"
      "''01/03/2024, 08:00''" "[''02/03/2024, 09:00'']" "[(''nor_time'', [''01/03/2024, 08:00''])]"]
      C9_first_candidate_only [of "[(''nor_time'', [''01/03/2024, 08:00''])]" _ _
        "[(''nor_time'', [''01/03/2024, 08:00'', ''02/03/2024, 09:00''])]"]
      m f
  show ?thesis
    by (simp add: parse_datetime_0800)
qed

lemma round_half_even_bounds:
  assumes "0 \<le> y" "y \<le> 100"
  shows "0 \<le> round_half_even y \<and> round_half_even y \<le> 100"
proof -
  have f0: "0 \<le> \<lfloor>y\<rfloor>" using assms by simp
  have f1: "\<lfloor>y\<rfloor> \<le> 100" using assms by (simp add: floor_le_iff)
  show ?thesis
  proof (cases "\<lfloor>y\<rfloor> = 100")
    case True
    then have "of_int \<lfloor>y\<rfloor> = (100::real)" by simp
    moreover have "of_int \<lfloor>y\<rfloor> \<le> y" by simp
    ultimately have "y - of_int \<lfloor>y\<rfloor> = 0" using assms by linarith
    then show ?thesis using True by (simp add: round_half_even_def Let_def)
  next
    case False
    with f1 have "\<lfloor>y\<rfloor> \<le> 99" by linarith
    with f0 have "0 \<le> \<lfloor>y\<rfloor> + 1" "\<lfloor>y\<rfloor> + 1 \<le> 100" "\<lfloor>y\<rfloor> \<le> 100" by linarith+
    with f0 show ?thesis unfolding round_half_even_def Let_def by presburger
  qed
qed

lemma py_round2_bounds:
  assumes "0 \<le> x" "x \<le> 1"
  shows "0 \<le> py_round2 x \<and> py_round2 x \<le> 1"
proof -
  have "0 \<le> x * 100" "x * 100 \<le> 100" using assms by simp_all
  from round_half_even_bounds [OF this]
  have "0 \<le> round_half_even (x * 100)" "round_half_even (x * 100) \<le> 100" by simp_all
  then have "(0::real) \<le> of_int (round_half_even (x * 100))"
    "of_int (round_half_even (x * 100)) \<le> (100::real)"
    by simp_all
  then show ?thesis by (simp add: py_round2_def)
qed

lemma py_round2_0 [simp]: "py_round2 0 = 0"
  by (simp add: py_round2_def round_half_even_def)

lemma py_round2_1 [simp]: "py_round2 1 = 1"
  by (simp add: py_round2_def round_half_even_def)

text \<open>The score before rounding, with the source's names.\<close>

lemma confidence_unfolded:
  "calculate_confidence_score e =
     py_round2 (min ((if 0 < length e
                      then real (length (filter (\<lambda>v. v \<noteq> []) (map snd e))) / real (length e)
                      else 0)
                     + real (length (filter (\<lambda>f. first_candidate e f \<noteq> None) critical_fields)) / 3 * (2 / 10))
                    1)"
  by (simp add: calculate_confidence_score_def Let_def critical_fields_def)

lemma confidence_bounds: "0 \<le> calculate_confidence_score e \<and> calculate_confidence_score e \<le> 1"
proof -
  let ?b = "(if 0 < length e
             then real (length (filter (\<lambda>v. v \<noteq> []) (map snd e))) / real (length e) else 0)"
  let ?c = "real (length (filter (\<lambda>f. first_candidate e f \<noteq> None) critical_fields)) / 3 * (2 / 10)"
  have "0 \<le> ?b" by simp
  moreover have "0 \<le> ?c" by simp
  ultimately have "0 \<le> min (?b + ?c) 1" by simp
  moreover have "min (?b + ?c) 1 \<le> 1" by simp
  ultimately show ?thesis
    unfolding confidence_unfolded by (rule py_round2_bounds)
qed

lemma extract_empty: "extract_sof_data [] = map (\<lambda>(f, ps). (f, [])) sof_patterns"
  by code_simp

lemma extract_keys: "map fst (extract_sof_data text_content) = map fst sof_patterns"
  by (simp add: extract_sof_data_def case_prod_unfold comp_def)

lemma field_names:
  "map fst sof_patterns = [''vessel_name'', ''voyage_number'', ''arrival_time'', ''departure_time'',
     ''nor_time'', ''laytime_allowed'', ''cargo_quantity'', ''berth_info'', ''port_name'']"
  by (simp add: sof_patterns_def)

lemma confidence_empty_text: "calculate_confidence_score (extract_sof_data []) = 0"
  unfolding extract_empty
  by (simp add: sof_patterns_def calculate_confidence_score_def Let_def first_candidate_def critical_fields_def)

lemma nine_fields:
  assumes "map fst e = map fst sof_patterns"
  shows "\<exists>v1 v2 v3 v4 v5 v6 v7 v8 v9.
     e = [(''vessel_name'', v1), (''voyage_number'', v2), (''arrival_time'', v3), (''departure_time'', v4),
          (''nor_time'', v5), (''laytime_allowed'', v6), (''cargo_quantity'', v7), (''berth_info'', v8),
          (''port_name'', v9)]"
  using assms unfolding field_names
  by (auto simp: map_eq_Cons_conv)

lemma confidence_all_fields:
  assumes keys: "map fst e = map fst sof_patterns"
    and full: "list_all (\<lambda>v. v \<noteq> []) (map snd e)"
  shows "calculate_confidence_score e = 1"
proof -
  from nine_fields [OF keys] obtain v1 v2 v3 v4 v5 v6 v7 v8 v9 where
    e: "e = [(''vessel_name'', v1), (''voyage_number'', v2), (''arrival_time'', v3), (''departure_time'', v4),
          (''nor_time'', v5), (''laytime_allowed'', v6), (''cargo_quantity'', v7), (''berth_info'', v8),
          (''port_name'', v9)]"
    by blast
  from full e have ne: "v1 \<noteq> []" "v3 \<noteq> []" "v4 \<noteq> []" "v2 \<noteq> []" "v5 \<noteq> []" "v6 \<noteq> []"
    "v7 \<noteq> []" "v8 \<noteq> []" "v9 \<noteq> []"
    by simp_all
  have crit: "first_candidate e ''vessel_name'' \<noteq> None" "first_candidate e ''arrival_time'' \<noteq> None"
    "first_candidate e ''departure_time'' \<noteq> None"
    using ne by (simp_all add: e first_candidate_def split: list.splits)
  have "length (filter (\<lambda>f. first_candidate e f \<noteq> None) critical_fields) = 3"
    using crit by (simp add: critical_fields_def)
  moreover have "length (filter (\<lambda>v. v \<noteq> []) (map snd e)) = 9"
    using ne by (simp add: e)
  moreover have "length e = 9" by (simp add: e)
  ultimately show ?thesis
    unfolding confidence_unfolded by simp
qed

subsection \<open>C6: the confidence score\<close>

text \<open>
  C6. For every extraction with at least one field, the confidence score is
  \<open>min (fields with a candidate / all fields + critical fields present / 3 * 0.2) 1\<close>,
  rounded to two decimals, where the critical fields are \<open>vessel_name\<close>,
  \<open>arrival_time\<close> and \<open>departure_time\<close>. It is computed from the extraction alone, lies
  between 0 and 1, is 0 for the empty text and 1 for an extraction in which each of the
  nine fields has a candidate. Every extraction of a text has the nine fields.
\<close>

theorem C6_confidence_score:
  "(e \<noteq> [] \<longrightarrow>
      calculate_confidence_score e
        = py_round2 (min (real (length (filter (\<lambda>(field, candidates). candidates \<noteq> []) e)) / real (length e)
                          + real (length (filter (\<lambda>field. \<exists>c cs. map_of e field = Some (c # cs))
                                            [''vessel_name'', ''arrival_time'', ''departure_time''])) / 3 * 0.2)
                         1.0))
   \<and> 0 \<le> calculate_confidence_score e \<and> calculate_confidence_score e \<le> 1
   \<and> confidence_score (parse_sof_document env c fname)
       = calculate_confidence_score (extracted_data (parse_sof_document env c fname))
   \<and> map fst (extract_sof_data text_content) = map fst sof_patterns
   \<and> length sof_patterns = 9
   \<and> calculate_confidence_score (extract_sof_data []) = 0
   \<and> (map fst e = map fst sof_patterns \<and> list_all (\<lambda>(field, candidates). candidates \<noteq> []) e \<longrightarrow>
        calculate_confidence_score e = 1)"
proof -
  have filt: "filter (\<lambda>(field, candidates). candidates \<noteq> []) e' = filter (\<lambda>p. snd p \<noteq> []) e'"
    for e' :: extracted_data
    by (simp add: case_prod_unfold)
  have crit: "(first_candidate e f \<noteq> None) = (\<exists>c cs. map_of e f = Some (c # cs))" for f
    by (auto simp: first_candidate_def split: option.splits list.splits)
  have formula: "calculate_confidence_score e
        = py_round2 (min (real (length (filter (\<lambda>(field, candidates). candidates \<noteq> []) e)) / real (length e)
                          + real (length (filter (\<lambda>field. \<exists>c cs. map_of e field = Some (c # cs))
                                            [''vessel_name'', ''arrival_time'', ''departure_time''])) / 3 * 0.2)
                         1.0)"
    if "e \<noteq> []"
  proof -
    have "length (filter (\<lambda>v. v \<noteq> []) (map snd e)) = length (filter (\<lambda>p. snd p \<noteq> []) e)"
      by (simp add: filter_map comp_def)
    then show ?thesis
      using that unfolding confidence_unfolded filt critical_fields_def crit by simp
  qed
  have all: "calculate_confidence_score e = 1"
    if "map fst e = map fst sof_patterns" "list_all (\<lambda>(field, candidates). candidates \<noteq> []) e"
  proof (rule confidence_all_fields [OF that(1)])
    from that(2) show "list_all (\<lambda>v. v \<noteq> []) (map snd e)"
      by (simp add: list_all_iff case_prod_unfold)
  qed
  have "confidence_score (parse_sof_document env c fname)
       = calculate_confidence_score (extracted_data (parse_sof_document env c fname))"
    by (simp add: parse_sof_document_def Let_def)
  moreover have "length sof_patterns = 9" by (simp add: sof_patterns_def)
  ultimately show ?thesis
    using formula confidence_bounds [of e] extract_keys [of text_content] confidence_empty_text all
    by blast
qed


text \<open>
  The witness: an extraction in which every field has a candidate scores 1 (the sum
  \<open>1 + 0.2\<close> is capped), and one with a vessel name and an arrival time only scores
  \<open>2/9 + 2/3 * 0.2 = 0.3555...\<close>, rounded to 0.36.
\<close>

theorem C6_witness:
  "full_extraction \<noteq> []
   \<and> map fst full_extraction = map fst sof_patterns
   \<and> list_all (\<lambda>(field, candidates). candidates \<noteq> []) full_extraction
   \<and> calculate_confidence_score full_extraction = 1
   \<and> partial_extraction \<noteq> []
   \<and> calculate_confidence_score partial_extraction = 0.36"
proof -
  have a: "full_extraction \<noteq> []" "partial_extraction \<noteq> []"
    by (simp_all add: full_extraction_def partial_extraction_def)
  have b: "map fst full_extraction = map fst sof_patterns"
    by (simp add: full_extraction_def sof_patterns_def)
  have c: "list_all (\<lambda>(field, candidates). candidates \<noteq> []) full_extraction"
    by (simp add: full_extraction_def)
  have r: "py_round2 (16 / 45) = 0.36"
    by (simp add: py_round2_def round_half_even_def Let_def)
  have "calculate_confidence_score partial_extraction = py_round2 (16 / 45)"
    using C6_confidence_score [of partial_extraction] a
    by (simp add: partial_extraction_def)
  moreover have "calculate_confidence_score full_extraction = 1"
    using C6_confidence_score [of full_extraction] b c by blast
  ultimately show ?thesis
    using r a b c by simp
qed

lemma unique_loop_keep_first:
  "unique_loop xs (set u) u = u @ keep_first (filter (\<lambda>x. x \<notin> set u) xs)"
proof (induction xs arbitrary: u)
  case Nil
  then show ?case by simp
next
  case (Cons m ms)
  show ?case
  proof (cases "m \<in> set u")
    case True
    then show ?thesis using Cons.IH [of u] by simp
  next
    case False
    have "unique_loop (m # ms) (set u) u = unique_loop ms (set (u @ [m])) (u @ [m])"
      using False by simp
    also have "\<dots> = (u @ [m]) @ keep_first (filter (\<lambda>x. x \<notin> set (u @ [m])) ms)"
      by (rule Cons.IH)
    also have "filter (\<lambda>x. x \<notin> set (u @ [m])) ms
                 = filter (\<lambda>y. y \<noteq> m) (filter (\<lambda>x. x \<notin> set u) ms)"
      by (auto intro: filter_cong)
    finally show ?thesis using False by simp
  qed
qed

lemma extract_field_keep_first:
  "extract_field patterns text_content = keep_first (field_candidates patterns text_content)"
  using unique_loop_keep_first [of "field_candidates patterns text_content" "[]"]
  by (simp add: extract_field_def)

lemma set_keep_first: "set (keep_first xs) = set xs"
  by (induction xs rule: keep_first.induct) auto

lemma distinct_keep_first: "distinct (keep_first xs)"
  by (induction xs rule: keep_first.induct) (simp_all add: set_keep_first)

lemma first_pos_Cons: "first_pos a (h # xs) = (if h = a then 0 else Suc (first_pos a xs))"
  by (simp add: first_pos_def)

lemma first_pos_le: "first_pos a xs \<le> length xs"
  by (simp add: first_pos_def length_takeWhile_le)

lemma first_pos_filter_mono:
  assumes "a \<noteq> x" "b \<noteq> x"
    and "first_pos a (filter (\<lambda>y. y \<noteq> x) xs) < first_pos b (filter (\<lambda>y. y \<noteq> x) xs)"
  shows "first_pos a xs < first_pos b xs"
  using assms(3)
proof (induction xs)
  case Nil
  then show ?case by simp
next
  case (Cons h xs)
  show ?case
  proof (cases "h = x")
    case True
    with Cons assms(1,2) show ?thesis by (simp add: first_pos_Cons)
  next
    case False
    with Cons show ?thesis
      by (auto simp: first_pos_Cons split: if_splits)
  qed
qed

lemma keep_first_order:
  "i < j \<Longrightarrow> j < length (keep_first xs) \<Longrightarrow>
     first_pos (keep_first xs ! i) xs < first_pos (keep_first xs ! j) xs"
proof (induction xs arbitrary: i j rule: keep_first.induct)
  case 1
  then show ?case by simp
next
  case (2 x xs)
  let ?ys = "filter (\<lambda>y. y \<noteq> x) xs"
  from 2(2,3) obtain j' where j': "j = Suc j'" "j' < length (keep_first ?ys)"
    by (cases j) auto
  have bj: "keep_first ?ys ! j' \<noteq> x"
    using j'(2) nth_mem [of j' "keep_first ?ys"] by (auto simp: set_keep_first)
  show ?case
  proof (cases i)
    case 0
    then show ?thesis using bj j' by (simp add: first_pos_Cons)
  next
    case (Suc i')
    with 2(2) j' have lt: "i' < j'" by simp
    then have ai: "keep_first ?ys ! i' \<noteq> x"
      using j'(2) nth_mem [of i' "keep_first ?ys"] by (auto simp: set_keep_first)
    from "2.IH" [OF lt j'(2)]
    have "first_pos (keep_first ?ys ! i') ?ys < first_pos (keep_first ?ys ! j') ?ys" .
    from first_pos_filter_mono [OF ai bj this]
    show ?thesis using Suc j' ai bj by (simp add: first_pos_Cons)
  qed
qed

lemma field_candidates_no_match:
  assumes "\<forall>p \<in> set patterns. findall True p text_content = []"
  shows "field_candidates patterns text_content = []"
  using assms by (simp add: field_candidates_def)

lemma extract_lookup:
  assumes "(field, patterns) \<in> set sof_patterns"
  shows "map_of (extract_sof_data text_content) field = Some (extract_field patterns text_content)"
proof (rule map_of_is_SomeI)
  show "distinct (map fst (extract_sof_data text_content))"
    unfolding extract_keys field_names by simp
  show "(field, extract_field patterns text_content) \<in> set (extract_sof_data text_content)"
    using assms by (force simp: extract_sof_data_def)
qed

subsection \<open>C8: the candidates of a field\<close>

text \<open>
  C8. For every text and every field of the pattern table, the extraction holds for the
  field a list with no two equal entries, made of exactly the candidates found (by the
  patterns in their order, each pattern's matches in their order, each match's groups in
  their order), each at the place of its first occurrence among them; a field without a
  match has the empty list. The extraction is a total function: it never fails.
\<close>

theorem C8_candidates_unique_in_order:
  assumes "(field, patterns) \<in> set sof_patterns"
  shows "map_of (extract_sof_data text_content) field = Some (extract_field patterns text_content)
         \<and> distinct (extract_field patterns text_content)
         \<and> set (extract_field patterns text_content) = set (field_candidates patterns text_content)
         \<and> (\<forall>i j. i < j \<and> j < length (extract_field patterns text_content) \<longrightarrow>
               first_pos (extract_field patterns text_content ! i) (field_candidates patterns text_content)
                 < first_pos (extract_field patterns text_content ! j) (field_candidates patterns text_content))
         \<and> extract_field patterns text_content = keep_first (field_candidates patterns text_content)
         \<and> ((\<forall>p \<in> set patterns. findall True p text_content = []) \<longrightarrow>
               extract_field patterns text_content = [])"
proof -
  let ?r = "extract_field patterns text_content"
  let ?cs = "field_candidates patterns text_content"
  have r: "?r = keep_first ?cs" by (rule extract_field_keep_first)
  have 1: "map_of (extract_sof_data text_content) field = Some ?r"
    by (rule extract_lookup [OF assms])
  have 2: "distinct ?r" unfolding r by (rule distinct_keep_first)
  have 3: "set ?r = set ?cs" unfolding r by (rule set_keep_first)
  have 4: "\<forall>i j. i < j \<and> j < length ?r \<longrightarrow> first_pos (?r ! i) ?cs < first_pos (?r ! j) ?cs"
    unfolding r using keep_first_order by blast
  have 5: "(\<forall>p \<in> set patterns. findall True p text_content = []) \<longrightarrow> ?r = []"
    unfolding r using field_candidates_no_match [of patterns text_content] by auto
  from 1 2 3 4 r 5 show ?thesis by (intro conjI)
qed

lemma laytime_patterns_member:
  "(''laytime_allowed'', [
        seqs [lits ''laytime'', one_or_more colon_space, laytime_groups],
        seqs [lits ''lay'', one_or_more space_class, lits ''time'', one_or_more colon_space, laytime_groups],
        seqs [lits ''allowed'', one_or_more space_class, lits ''time'', one_or_more colon_space, laytime_groups]])
     \<in> set sof_patterns"
  by (simp add: sof_patterns_def)

lemma repeated_candidates:
  "field_candidates [
        seqs [lits ''laytime'', one_or_more colon_space, laytime_groups],
        seqs [lits ''lay'', one_or_more space_class, lits ''time'', one_or_more colon_space, laytime_groups],
        seqs [lits ''allowed'', one_or_more space_class, lits ''time'', one_or_more colon_space, laytime_groups]]
     repeated_laytime = [''3'', ''days'', ''3'', ''days'']"
  by code_simp

lemma empty_text_no_match:
  "\<forall>p \<in> set [
        seqs [lits ''laytime'', one_or_more colon_space, laytime_groups],
        seqs [lits ''lay'', one_or_more space_class, lits ''time'', one_or_more colon_space, laytime_groups],
        seqs [lits ''allowed'', one_or_more space_class, lits ''time'', one_or_more colon_space, laytime_groups]].
     findall True p [] = []"
  by code_simp

text \<open>
  The witness: in \<open>laytime: 3 days, lay time: 3 days\<close> the first and the second pattern
  of \<open>laytime_allowed\<close> each find the groups \<open>3\<close> and \<open>days\<close>; the field holds each once,
  in that order. In the empty text no pattern matches and the field is empty.
\<close>

theorem C8_witness:
  "map_of (extract_sof_data repeated_laytime) ''laytime_allowed'' = Some [''3'', ''days'']
   \<and> distinct [''3'', ''days'']
   \<and> map_of (extract_sof_data []) ''laytime_allowed'' = Some []"
proof -
  have k: "keep_first [''3'', ''days'', ''3'', ''days''] = [''3'', ''days'']"
    by simp
  note t = C8_candidates_unique_in_order [OF laytime_patterns_member, of repeated_laytime]
  note e = C8_candidates_unique_in_order [OF laytime_patterns_member, of "[]"]
  have a: "map_of (extract_sof_data repeated_laytime) ''laytime_allowed'' = Some [''3'', ''days'']"
    using t [THEN conjunct1] t [THEN conjunct2, THEN conjunct2, THEN conjunct2, THEN conjunct2, THEN conjunct1]
    unfolding repeated_candidates k by simp
  have d: "distinct [''3'', ''days'']"
    by simp
  have "extract_field [
        seqs [lits ''laytime'', one_or_more colon_space, laytime_groups],
        seqs [lits ''lay'', one_or_more space_class, lits ''time'', one_or_more colon_space, laytime_groups],
        seqs [lits ''allowed'', one_or_more space_class, lits ''time'', one_or_more colon_space, laytime_groups]] [] = []"
    by (rule mp [OF e [THEN conjunct2, THEN conjunct2, THEN conjunct2, THEN conjunct2, THEN conjunct2]
                  empty_text_no_match])
  with e [THEN conjunct1]
  have b: "map_of (extract_sof_data []) ''laytime_allowed'' = Some []"
    by simp
  from a d b show ?thesis by (intro conjI)
qed

declare search.simps [simp del] scan.simps [simp del]

subsection \<open>The first match of an expression\<close>

lemma first_match_Seq:
  "first_match ic a s c = Some (s1, c1) \<Longrightarrow> first_match ic b s1 c1 = Some x
     \<Longrightarrow> first_match ic (Seq a b) s c = Some x"
  by (auto simp: first_match_def split: list.splits)

lemma first_match_Grp:
  "first_match ic a s c = Some (s1, c1)
     \<Longrightarrow> first_match ic (Grp n a) s c = Some (s1, (n, take (length s - length s1) s) # c1)"
  by (auto simp: first_match_def split: list.splits)

lemma first_match_Alt1:
  "first_match ic a s c = Some x \<Longrightarrow> first_match ic (Alt a b) s c = Some x"
  by (auto simp: first_match_def split: list.splits)

lemma first_match_Alt2:
  "rmatch ic a s c = [] \<Longrightarrow> first_match ic (Alt a b) s c = first_match ic b s c"
  by (simp add: first_match_def)

lemma first_match_Cls:
  "in_class ic its ch \<Longrightarrow> first_match ic (Cls its) (ch # rest) c = Some (rest, c)"
  by (simp add: first_match_def)

lemma first_match_Eps: "first_match ic Eps s c = Some (s, c)"
  by (simp add: first_match_def)

lemma rmatch_Cls_fail: "\<not> in_class ic its ch \<Longrightarrow> rmatch ic (Cls its) (ch # rest) c = []"
  by simp

lemma rmatch_Seq_fail: "rmatch ic a s c = [] \<Longrightarrow> rmatch ic (Seq a b) s c = []"
  by simp

lemma first_match_Rep_greedy:
  assumes "list_all (in_class ic its) xs"
    and "rest = [] \<or> \<not> in_class ic its (hd rest)"
    and "lo \<le> length xs"
  shows "first_match ic (Rep its lo None True) (xs @ rest) c = Some (rest, c)"
proof -
  have "takeWhile (in_class ic its) rest = []"
    using assms(2) by (cases rest) auto
  then have "takeWhile (in_class ic its) (xs @ rest) = xs"
    using assms(1) by (simp add: list_all_iff)
  then have n: "run_length ic its None (xs @ rest) = length xs"
    by (simp add: run_length_def)
  have "rev [lo ..< Suc (length xs)] = length xs # rev [lo ..< length xs]"
    using assms(3) by simp
  then show ?thesis
    by (simp add: first_match_def n Let_def)
qed

lemma search_first_match:
  "first_match ic r s [] = Some (rest, c) \<Longrightarrow> search ic r s = Some (s, rest, c)"
  by (subst search.simps) (auto simp: first_match_def split: list.splits)

subsection \<open>Characters of the laytime strings\<close>

lemma digit_chars_in_class: "list_all (in_class True digit_class) digit_chars"
  by code_simp

lemma digit_in_class: "isdigit ch \<Longrightarrow> in_class True digit_class ch"
  using digit_chars_in_class by (simp add: isdigit_def list_all_iff)

lemma whitespace_chars_classes:
  "list_all (\<lambda>ch. in_class True space_class ch \<and> \<not> in_class True digit_class ch
                  \<and> \<not> in_class True [CChar CHR ''.''] ch \<and> \<not> isdigit ch) whitespace_chars"
  by code_simp

lemma space_classes:
  assumes "isspace ch"
  shows "in_class True space_class ch" "\<not> in_class True digit_class ch"
    "\<not> in_class True [CChar CHR ''.''] ch" "\<not> isdigit ch"
  using whitespace_chars_classes assms by (simp_all add: isspace_def list_all_iff)

lemma dot_classes:
  "\<not> in_class True digit_class CHR ''.''" "in_class True [CChar CHR ''.''] CHR ''.''"
  "\<not> isdigit CHR ''.''"
  by code_simp+

lemma ascii_lower_cases:
  assumes "ascii_lower ch = x"
  shows "ch = x \<or> (ch, x) \<in> set (zip upper_chars lower_chars)"
proof (cases "map_of (zip upper_chars lower_chars) ch")
  case None
  with assms show ?thesis by (simp add: ascii_lower_def)
next
  case (Some l)
  with assms have "l = x" by (simp add: ascii_lower_def)
  with Some show ?thesis by (auto dest: map_of_SomeD)
qed

lemma lower_d: "ascii_lower ch = CHR ''d'' \<Longrightarrow> ch = CHR ''d'' \<or> ch = CHR ''D''"
  by (drule ascii_lower_cases) (simp add: upper_chars_def lower_chars_def)

lemma lower_h: "ascii_lower ch = CHR ''h'' \<Longrightarrow> ch = CHR ''h'' \<or> ch = CHR ''H''"
  by (drule ascii_lower_cases) (simp add: upper_chars_def lower_chars_def)

lemma unit_letters_classes:
  "list_all (\<lambda>ch. \<not> in_class True space_class ch \<and> \<not> in_class True digit_class ch
                  \<and> \<not> in_class True [CChar CHR ''.''] ch \<and> \<not> isdigit ch) ''dDhH''"
  by code_simp

lemma d_not_h: "list_all (\<lambda>ch. \<not> in_class True [CChar CHR ''h''] ch) ''dD''"
  by code_simp

lemma lit_in_class: "ascii_lower ch = x \<Longrightarrow> in_class True [CChar x] ch"
  by (simp add: in_class_def)


subsection \<open>The laytime expression on a number, blanks and a unit\<close>

lemma number_first:
  assumes ds: "ds \<noteq> []" "list_all isdigit ds"
    and fr: "fr = [] \<or> (\<exists>fs. fr = CHR ''.'' # fs \<and> fs \<noteq> [] \<and> list_all isdigit fs)"
    and tail: "tail \<noteq> []" "\<not> in_class True digit_class (hd tail)"
      "\<not> in_class True [CChar CHR ''.''] (hd tail)"
  shows "first_match True (Seq (one_or_more digit_class) fraction_re) (ds @ fr @ tail) c = Some (tail, c)"
proof -
  have stop: "fr @ tail = [] \<or> \<not> in_class True digit_class (hd (fr @ tail))"
    using fr tail dot_classes(1) by auto
  have d: "first_match True (one_or_more digit_class) (ds @ fr @ tail) c = Some (fr @ tail, c)"
    unfolding one_or_more_def
  proof (rule first_match_Rep_greedy)
    show "list_all (in_class True digit_class) ds"
      using ds(2) by (simp add: list_all_iff digit_in_class)
    show "fr @ tail = [] \<or> \<not> in_class True digit_class (hd (fr @ tail))" by (rule stop)
    show "1 \<le> length ds" using ds(1) by (cases ds) simp_all
  qed
  have f: "first_match True fraction_re (fr @ tail) c = Some (tail, c)"
  proof (cases fr)
    case Nil
    from tail(1) obtain t ts where t: "tail = t # ts" by (cases tail) auto
    with tail(3) have "rmatch True (Cls [CChar CHR ''.'']) tail c = []" by simp
    then have "rmatch True (Seq (lits ''.'') (one_or_more digit_class)) tail c = []"
      by (simp add: lits_def)
    then show ?thesis
      using Nil by (simp add: fraction_re_def optional_def first_match_Alt2 first_match_Eps)
  next
    case (Cons x fs0)
    with fr obtain fs where fs: "fr = CHR ''.'' # fs" "fs \<noteq> []" "list_all isdigit fs" by auto
    have 1: "first_match True (lits ''.'') (CHR ''.'' # fs @ tail) c = Some (fs @ tail, c)"
      by (simp add: lits_def first_match_Cls dot_classes)
    have 2: "first_match True (one_or_more digit_class) (fs @ tail) c = Some (tail, c)"
      unfolding one_or_more_def
    proof (rule first_match_Rep_greedy)
      show "list_all (in_class True digit_class) fs"
        using fs(3) by (simp add: list_all_iff digit_in_class)
      show "tail = [] \<or> \<not> in_class True digit_class (hd tail)" using tail(2) by simp
      show "1 \<le> length fs" using fs(2) by (cases fs) simp_all
    qed
    from first_match_Seq [OF 1 2] show ?thesis
      by (simp add: fs(1) fraction_re_def optional_def first_match_Alt1)
  qed
  from first_match_Seq [OF d f] show ?thesis .
qed

lemma blanks_first:
  assumes "list_all isspace ws" "u \<noteq> []" "\<not> in_class True space_class (hd u)"
  shows "first_match True (zero_or_more space_class) (ws @ u) c = Some (u, c)"
  unfolding zero_or_more_def
proof (rule first_match_Rep_greedy)
  show "list_all (in_class True space_class) ws"
    using assms(1) by (simp add: list_all_iff space_classes(1))
  show "u = [] \<or> \<not> in_class True space_class (hd u)" using assms(3) by simp
  show "0 \<le> length ws" by simp
qed

lemma lits_hour: "lits ''hour'' = Seq (Cls [CChar CHR ''h'']) (Seq (Cls [CChar CHR ''o''])
    (Seq (Cls [CChar CHR ''u'']) (Cls [CChar CHR ''r''])))"
  by (simp add: lits_def)

lemma lits_day: "lits ''day'' = Seq (Cls [CChar CHR ''d'']) (Seq (Cls [CChar CHR ''a''])
    (Cls [CChar CHR ''y'']))"
  by (simp add: lits_def)

lemma lits_s: "lits ''s'' = Cls [CChar CHR ''s'']"
  by (simp add: lits_def)

lemma day_first:
  assumes "lower_str u = ''day'' \<or> lower_str u = ''days''"
  shows "first_match True hours_days u c = Some ([], c)"
proof -
  from assms obtain a b y tl where u: "u = a # b # y # tl"
    "ascii_lower a = CHR ''d''" "ascii_lower b = CHR ''a''" "ascii_lower y = CHR ''y''"
    "tl = [] \<or> (\<exists>e. tl = [e] \<and> ascii_lower e = CHR ''s'')"
    by (auto simp: lower_str_def map_eq_Cons_conv)
  have nh: "\<not> in_class True [CChar CHR ''h''] a"
    using lower_d [OF u(2)] d_not_h by auto
  have hour: "rmatch True (Seq (lits ''hour'') (optional (lits ''s''))) u c = []"
    using nh by (simp add: lits_hour u(1))
  have day: "first_match True (lits ''day'') u c = Some (tl, c)"
    using u(2,3,4) by (simp add: lits_day u(1) first_match_def lit_in_class)
  have s: "first_match True (optional (lits ''s'')) tl c = Some ([], c)"
    using u(5) by (auto simp: optional_def lits_s first_match_def lit_in_class)
  from first_match_Seq [OF day s] hour show ?thesis
    by (simp add: hours_days_def first_match_Alt2)
qed

lemma hour_first:
  assumes "lower_str u = ''hour'' \<or> lower_str u = ''hours''"
  shows "first_match True hours_days u c = Some ([], c)"
proof -
  from assms obtain a b y z tl where u: "u = a # b # y # z # tl"
    "ascii_lower a = CHR ''h''" "ascii_lower b = CHR ''o''" "ascii_lower y = CHR ''u''"
    "ascii_lower z = CHR ''r''"
    "tl = [] \<or> (\<exists>e. tl = [e] \<and> ascii_lower e = CHR ''s'')"
    by (auto simp: lower_str_def map_eq_Cons_conv)
  have hour: "first_match True (lits ''hour'') u c = Some (tl, c)"
    using u(2,3,4,5) by (simp add: lits_hour u(1) first_match_def lit_in_class)
  have s: "first_match True (optional (lits ''s'')) tl c = Some ([], c)"
    using u(6) by (auto simp: optional_def lits_s first_match_def lit_in_class)
  from first_match_Seq [OF hour s] show ?thesis
    by (simp add: hours_days_def first_match_Alt1)
qed

lemma unit_head:
  assumes "lower_str u \<in> {''day'', ''days'', ''hour'', ''hours''}"
  shows "u \<noteq> []" "\<not> in_class True space_class (hd u)" "\<not> in_class True digit_class (hd u)"
    "\<not> in_class True [CChar CHR ''.''] (hd u)"
proof -
  from assms obtain a tl where u: "u = a # tl" "ascii_lower a = CHR ''d'' \<or> ascii_lower a = CHR ''h''"
    by (auto simp: lower_str_def map_eq_Cons_conv)
  then have "a \<in> set ''dDhH''" using lower_d [of a] lower_h [of a] by auto
  with unit_letters_classes
  have "\<not> in_class True space_class a \<and> \<not> in_class True digit_class a
          \<and> \<not> in_class True [CChar CHR ''.''] a"
    unfolding list_all_iff by blast
  with u show "u \<noteq> []" "\<not> in_class True space_class (hd u)" "\<not> in_class True digit_class (hd u)"
    "\<not> in_class True [CChar CHR ''.''] (hd u)"
    by simp_all
qed

lemma laytime_groups_first:
  assumes ds: "ds \<noteq> []" "list_all isdigit ds"
    and fr: "fr = [] \<or> (\<exists>fs. fr = CHR ''.'' # fs \<and> fs \<noteq> [] \<and> list_all isdigit fs)"
    and ws: "list_all isspace ws"
    and u: "lower_str u \<in> {''day'', ''days'', ''hour'', ''hours''}"
  shows "first_match True laytime_groups (ds @ fr @ ws @ u) [] = Some ([], [(2, u), (1, ds @ fr)])"
proof -
  note uh = unit_head [OF u]
  have tail: "ws @ u \<noteq> []" "\<not> in_class True digit_class (hd (ws @ u))"
    "\<not> in_class True [CChar CHR ''.''] (hd (ws @ u))"
    using uh ws by (cases ws; simp add: space_classes)+
  have n: "first_match True (Seq (one_or_more digit_class) fraction_re) (ds @ fr @ ws @ u) []
             = Some (ws @ u, [])"
    by (rule number_first [OF ds fr tail])
  have g1: "first_match True (Grp 1 (Seq (one_or_more digit_class) fraction_re)) (ds @ fr @ ws @ u) []
             = Some (ws @ u, [(1, ds @ fr)])"
    using first_match_Grp [OF n, of 1] by simp
  have b: "first_match True (zero_or_more space_class) (ws @ u) [(1, ds @ fr)] = Some (u, [(1, ds @ fr)])"
    by (rule blanks_first [OF ws uh(1) uh(2)])
  have h: "first_match True hours_days u [(1, ds @ fr)] = Some ([], [(1, ds @ fr)])"
    using u day_first [of u] hour_first [of u] by auto
  have g2: "first_match True (Grp 2 hours_days) u [(1, ds @ fr)] = Some ([], [(2, u), (1, ds @ fr)])"
    using first_match_Grp [OF h, of 2] by simp
  from first_match_Seq [OF g1 first_match_Seq [OF b g2]] show ?thesis
    by (simp add: laytime_groups_def)
qed

lemma py_float_decimal:
  assumes ds: "ds \<noteq> []" "list_all isdigit ds"
    and fr: "fr = [] \<or> (\<exists>fs. fr = CHR ''.'' # fs \<and> fs \<noteq> [] \<and> list_all isdigit fs)"
  shows "py_float (ds @ fr) = Some (decimal_number ds fr)"
proof -
  have stop: "takeWhile isdigit fr = []" "dropWhile isdigit fr = fr"
    using fr dot_classes(3) by auto
  have t: "takeWhile isdigit (ds @ fr) = ds" "dropWhile isdigit (ds @ fr) = fr"
    using ds(2) stop by (simp_all add: list_all_iff)
  show ?thesis
    using fr ds(1) unfolding py_float_def t Let_def decimal_number_def by auto
qed

lemma contains_day:
  "contains ''day'' ''day''" "contains ''days'' ''day''"
  "\<not> contains ''hour'' ''day''" "\<not> contains ''hours'' ''day''"
  by simp_all

lemma parse_laytime_form:
  assumes ds: "ds \<noteq> []" "list_all isdigit ds"
    and fr: "fr = [] \<or> (\<exists>fs. fr = CHR ''.'' # fs \<and> fs \<noteq> [] \<and> list_all isdigit fs)"
    and ws: "list_all isspace ws"
    and u: "lower_str u \<in> {''day'', ''days'', ''hour'', ''hours''}"
  shows "parse_laytime (ds @ fr @ ws @ u)
           = Some (if lower_str u \<in> {''day'', ''days''} then decimal_number ds fr * 24
                   else decimal_number ds fr)"
proof -
  have s: "search True laytime_groups (ds @ fr @ ws @ u)
             = Some (ds @ fr @ ws @ u, [], [(2, u), (1, ds @ fr)])"
    by (rule search_first_match [OF laytime_groups_first [OF ds fr ws u]])
  show ?thesis
    using u unfolding parse_laytime_def s
    by (auto simp: group_def py_float_decimal [OF ds fr] Let_def)
qed


subsection \<open>C7: the laytime allowance in hours\<close>

text \<open>
  C7. For every candidate string made of a decimal number (digits, and possibly a dot
  and more digits), blanks or none, and a unit: when the unit is \<open>day\<close> or \<open>days\<close> in
  any letter case the normalisation returns the number times 24, when it is \<open>hour\<close> or
  \<open>hours\<close> the number itself. When the expression finds no number with a unit in a
  string, the result is absent; the function returns an optional value for every string
  and raises nothing.
\<close>

theorem C7_laytime_normalization:
  assumes "ds \<noteq> []" and "list_all isdigit ds"
    and "fr = [] \<or> (\<exists>fs. fr = CHR ''.'' # fs \<and> fs \<noteq> [] \<and> list_all isdigit fs)"
    and "list_all isspace ws"
  shows "(lower_str u \<in> {''day'', ''days''} \<longrightarrow>
            parse_laytime (ds @ fr @ ws @ u) = Some (decimal_number ds fr * 24))
       \<and> (lower_str u \<in> {''hour'', ''hours''} \<longrightarrow>
            parse_laytime (ds @ fr @ ws @ u) = Some (decimal_number ds fr))
       \<and> (search True laytime_groups t = None \<longrightarrow> parse_laytime t = None)"
proof (intro conjI impI)
  assume u: "lower_str u \<in> {''day'', ''days''}"
  then have "lower_str u \<in> {''day'', ''days'', ''hour'', ''hours''}" by auto
  from parse_laytime_form [OF assms this] u
  show "parse_laytime (ds @ fr @ ws @ u) = Some (decimal_number ds fr * 24)" by simp
next
  assume u: "lower_str u \<in> {''hour'', ''hours''}"
  then have "lower_str u \<in> {''day'', ''days'', ''hour'', ''hours''}" by auto
  moreover from u have "lower_str u \<notin> {''day'', ''days''}" by auto
  ultimately show "parse_laytime (ds @ fr @ ws @ u) = Some (decimal_number ds fr)"
    using parse_laytime_form [OF assms, of u] by simp
next
  assume "search True laytime_groups t = None"
  then show "parse_laytime t = None" by (simp add: parse_laytime_def)
qed

lemma example_numbers: "nat_of_digits ''3'' = 3" "nat_of_digits ''48'' = 48"
  by code_simp+

lemma example_forms:
  "list_all isdigit ''3''" "list_all isdigit ''48''" "list_all isspace '' ''"
  "lower_str ''days'' = ''days''" "lower_str ''hours'' = ''hours''"
  "search True laytime_groups ''3'' = None"
  by code_simp+

text \<open>
  The witness: the specification's examples \<open>3 days\<close> and \<open>48 hours\<close>, and the number
  alone, which has no unit and normalises to nothing.
\<close>

theorem C7_witness:
  "parse_laytime ''3 days'' = Some 72 \<and> parse_laytime ''48 hours'' = Some 48
   \<and> parse_laytime ''3'' = None"
proof -
  have a: "parse_laytime (''3'' @ [] @ '' '' @ ''days'') = Some (decimal_number ''3'' [] * 24)"
    using C7_laytime_normalization [of "''3''" "[]" "'' ''" "''days''"] example_forms by auto
  have b: "parse_laytime (''48'' @ [] @ '' '' @ ''hours'') = Some (decimal_number ''48'' [])"
    using C7_laytime_normalization [of "''48''" "[]" "'' ''" "''hours''"] example_forms by auto
  have c: "parse_laytime ''3'' = None"
    using C7_laytime_normalization [of "''3''" "[]" "'' ''" _ "''3''"] example_forms by auto
  from a b c show ?thesis
    by (simp add: decimal_number_def example_numbers)
qed

subsection \<open>C10: zero values\<close>

text \<open>
  The text of four lines: a notice of readiness and a departure at the same minute,
  \<open>laytime: 0 hours\<close> and \<open>cargo: 1000 mt\<close>. The first laytime candidate is the
  number without its unit, which \<open>parse_laytime\<close> does not accept.
\<close>

lemma extract_short_sample:
  "extract_sof_data short_sample =
     [(''vessel_name'', []), (''voyage_number'', []), (''arrival_time'', []),
      (''departure_time'', [''01/03/2024, 08:00'']), (''nor_time'', [''01/03/2024, 08:00'']),
      (''laytime_allowed'', [''0'', ''hours'']), (''cargo_quantity'', [''1000'', ''mt'']),
      (''berth_info'', []), (''port_name'', [])]"
  by code_simp

lemma parse_laytime_number_alone: "parse_laytime ''0'' = None"
  by code_simp

lemma search_cargo_1000: "search False cargo_number ''1000'' = Some (''1000'', [], [(1, ''1000'')])"
  by code_simp

lemma py_float_1000: "py_float ''1000'' = Some 1000"
proof -
  have "takeWhile isdigit ''1000'' = ''1000''" "dropWhile isdigit ''1000'' = []"
    "nat_of_digits ''1000'' = 1000"
    by code_simp+
  then show ?thesis by (simp add: py_float_def)
qed

lemma parse_cargo_1000: "parse_cargo_quantity ''1000'' = Some 1000"
  by (simp add: parse_cargo_quantity_def search_cargo_1000 group_def py_float_1000)

lemma parsed_short_sample:
  "parse_dates_and_times (extract_sof_data short_sample) =
     \<lparr>extracted = extract_sof_data short_sample,
      arrival_datetime = None,
      departure_datetime = Some (Some (mk_datetime 2024 3 1 8 0)),
      nor_datetime = Some (Some (mk_datetime 2024 3 1 8 0)),
      laytime_hours = Some None,
      cargo_mt = Some (Some 1000)\<rparr>"
  unfolding parse_dates_and_times_def
  by (simp add: extract_short_sample first_candidate_def parse_datetime_0800
        parse_laytime_number_alone parse_cargo_1000)

lemma document_text_env0: "document_text env0 (Text t) fname = t"
  by (simp add: document_text_def env0_def)

text \<open>
  Away from that division the zero values are treated as absent values are: a zero
  allowance gives the total and no status, a zero cargo quantity no rate.
\<close>

lemma zero_values_as_absent:
  assumes nor: "dict_get (nor_datetime pd) = Some n"
    and dep: "dict_get (departure_datetime pd) = Some d"
  shows "(dict_get (laytime_hours pd) = Some 0
            \<and> (elapsed_hours n d \<noteq> 0 \<or> \<not> truthy_float (dict_get (cargo_mt pd))) \<longrightarrow>
          (\<exists>c. calculate_laytime pd = Inr c \<and> laytime_status c = None
               \<and> total_time_hours c = Some (elapsed_hours n d)))
       \<and> (dict_get (cargo_mt pd) = Some 0 \<longrightarrow>
          (\<exists>c. calculate_laytime pd = Inr c \<and> cargo_rate_mt_per_hour c = None
               \<and> cargo_rate_mt_per_day c = None))"
proof (intro conjI impI)
  assume a: "dict_get (laytime_hours pd) = Some 0
            \<and> (elapsed_hours n d \<noteq> 0 \<or> \<not> truthy_float (dict_get (cargo_mt pd)))"
  then show "\<exists>c. calculate_laytime pd = Inr c \<and> laytime_status c = None
               \<and> total_time_hours c = Some (elapsed_hours n d)"
    unfolding calculate_laytime_present [OF nor dep]
    by (auto simp: cargo_block_def py_div_def truthy_float_def laytime_efficiency_def empty_calc_def)
next
  assume "dict_get (cargo_mt pd) = Some 0"
  then show "\<exists>c. calculate_laytime pd = Inr c \<and> cargo_rate_mt_per_hour c = None
               \<and> cargo_rate_mt_per_day c = None"
    unfolding calculate_laytime_present [OF nor dep]
    by (simp add: cargo_block_def truthy_float_def laytime_efficiency_def empty_calc_def Let_def)
qed

text \<open>
  C10. An allowance of exactly \<open>0.0\<close> is treated as absent, and the claim says that
  \<open>total_hours\<close> is reported all the same. Where NOR and departure coincide and a cargo
  quantity is present, the division by the zero total raises, and the function returns
  its error dictionary: no \<open>total_hours\<close> is reported. This happens for the dictionary
  with the allowance \<open>0.0\<close> and for the text above, whose allowance is not normalised
  to \<open>0.0\<close> but to nothing.
\<close>

theorem C10_zero_total_with_cargo:
  "calculate_laytime (mk_parsed (Some (mk_datetime 2024 3 1 8 0)) (Some (mk_datetime 2024 3 1 8 0)) (Some 0) (Some 1000))
     = Inl ZeroDivisionError
   \<and> laytime_hours (parsed_data (parse_sof_document env0 (Text short_sample) ''sof.txt'')) = Some None
   \<and> laytime_calculations (parse_sof_document env0 (Text short_sample) ''sof.txt'')
     = Inl ZeroDivisionError"
proof -
  have a: "calculate_laytime (mk_parsed (Some (mk_datetime 2024 3 1 8 0)) (Some (mk_datetime 2024 3 1 8 0)) (Some 0) (Some 1000))
     = Inl ZeroDivisionError"
    by (simp add: calculate_laytime_present [where n = "mk_datetime 2024 3 1 8 0" and d = "mk_datetime 2024 3 1 8 0"]
        mk_parsed_def dict_get_def elapsed_0 laytime_efficiency_def truthy_float_def cargo_block_def
        py_div_def empty_calc_def)
  have b: "calculate_laytime (parse_dates_and_times (extract_sof_data short_sample)) = Inl ZeroDivisionError"
    unfolding parsed_short_sample
    by (simp add: calculate_laytime_present [where n = "mk_datetime 2024 3 1 8 0" and d = "mk_datetime 2024 3 1 8 0"]
        dict_get_def elapsed_0 laytime_efficiency_def truthy_float_def cargo_block_def
        py_div_def empty_calc_def)
  have c: "laytime_hours (parse_dates_and_times (extract_sof_data short_sample)) = Some None"
    unfolding parsed_short_sample by simp
  from a b c show ?thesis
    by (simp add: parse_sof_document_def Let_def document_text_env0)
qed

end
